theory Spec2Isabelle
  imports Complex_Main "HOL-Library.Sublist" "HOL-Library.Word" "HOL-Library.Log_Nat"
begin

section \<open>The segmented file uploader\<close>

text \<open>
  A shallow embedding of the uploader of the storage client: the segment arithmetic of
  \<^verbatim>\<open>utils.js\<close> (\<^verbatim>\<open>GetSplitNum\<close>, \<^verbatim>\<open>SegmentRange\<close>, \<^verbatim>\<open>txWithGasAdjustment\<close>,
  \<^verbatim>\<open>waitForReceipt\<close>) and of the class \<^verbatim>\<open>Uploader\<close> (\<^verbatim>\<open>nextSgmentIndex\<close>,
  \<^verbatim>\<open>splitTasks\<close>, \<^verbatim>\<open>getSegment\<close>, \<^verbatim>\<open>uploadTask\<close>).

  The three functions of the segment arithmetic compute on JavaScript numbers, which are
  IEEE 754 double-precision values: every operation rounds its exact result to the nearest
  double. They are modelled with that rounding. The loops of the uploader count and index
  with small integers, on which doubles are exact; there, numbers are \<open>int\<close>.
\<close>

subsection \<open>Double-precision numbers\<close>

text \<open>
  A JavaScript number: a finite double (a real number of the form \<open>n * 2 ^ e\<close> with
  \<open>\<bar>n\<bar> < 2 ^ 53\<close> and \<open>- 1074 \<le> e \<le> 971\<close>), an infinity, or \<^verbatim>\<open>NaN\<close>. The sign of
  a zero is not modelled: no divisor in the functions below is the result of an operation.
\<close>

datatype jsnum = Fin real | PosInf | NegInf | NaN

text \<open>Rounding to the nearest integer, a tie going to the even one.\<close>

definition round_half_even :: "real \<Rightarrow> int" where
  "round_half_even t =
     (let f = \<lfloor>t\<rfloor>; d = t - of_int f
      in if d < 1 / 2 then f else if 1 / 2 < d then f + 1 else if even f then f else f + 1)"

text \<open>
  The binary exponent of a real \<open>x \<noteq> 0\<close>, that is \<open>\<lfloor>log 2 \<bar>x\<bar>\<rfloor>\<close>, computed from the
  bit length of an integer.
\<close>

definition expo :: "real \<Rightarrow> int" where
  "expo x = (if 1 \<le> \<bar>x\<bar> then bitlen \<lfloor>\<bar>x\<bar>\<rfloor> - 1 else - bitlen (\<lceil>1 / \<bar>x\<bar>\<rceil> - 1))"

text \<open>
  The distance of neighbouring doubles around \<open>x\<close>: 52 binary digits below the leading
  one, and \<open>2 ^ (- 1074)\<close> in the subnormal range.
\<close>

definition quantum :: "real \<Rightarrow> real" where
  "quantum x = 2 powi (max (expo x) (- 1022) - 52)"

text \<open>The nearest multiple of the quantum: the double nearest to \<open>x\<close>, exponent unbounded.\<close>

definition fl :: "real \<Rightarrow> real" where
  "fl x = (if x = 0 then 0 else quantum x * of_int (round_half_even (x / quantum x)))"

text \<open>
  The result of an operation whose exact value is \<open>x\<close>: the nearest double, and an infinity
  when that has left the range (a magnitude of \<open>2 ^ 1024\<close> or more).
\<close>

definition round_double :: "real \<Rightarrow> jsnum" where
  "round_double x =
     (let r = fl x
      in if r = 0 then Fin 0
         else if 1024 \<le> expo r then (if 0 < r then PosInf else NegInf)
         else Fin r)"

text \<open>The infinity of the sign \<open>s\<close>; \<^verbatim>\<open>NaN\<close> where the sign is undetermined.\<close>

definition inf_of_sign :: "real \<Rightarrow> jsnum" where
  "inf_of_sign s = (if s = 0 then NaN else if 0 < s then PosInf else NegInf)"

fun js_sgn :: "jsnum \<Rightarrow> real" where
  "js_sgn (Fin a) = sgn a"
| "js_sgn PosInf = 1"
| "js_sgn NegInf = - 1"
| "js_sgn NaN = 0"

fun js_neg :: "jsnum \<Rightarrow> jsnum" where
  "js_neg (Fin a) = Fin (- a)"
| "js_neg PosInf = NegInf"
| "js_neg NegInf = PosInf"
| "js_neg NaN = NaN"

text \<open>\<^verbatim>\<open>a + b\<close>, \<^verbatim>\<open>a - b\<close>, \<^verbatim>\<open>a * b\<close> and \<^verbatim>\<open>a / b\<close> on numbers.\<close>

fun js_add :: "jsnum \<Rightarrow> jsnum \<Rightarrow> jsnum" where
  "js_add (Fin a) (Fin b) = round_double (a + b)"
| "js_add NaN b = NaN"
| "js_add a NaN = NaN"
| "js_add PosInf NegInf = NaN"
| "js_add NegInf PosInf = NaN"
| "js_add PosInf b = PosInf"
| "js_add NegInf b = NegInf"
| "js_add a PosInf = PosInf"
| "js_add a NegInf = NegInf"

definition js_sub :: "jsnum \<Rightarrow> jsnum \<Rightarrow> jsnum" where
  "js_sub a b = js_add a (js_neg b)"

fun js_mul :: "jsnum \<Rightarrow> jsnum \<Rightarrow> jsnum" where
  "js_mul (Fin a) (Fin b) = round_double (a * b)"
| "js_mul NaN b = NaN"
| "js_mul a NaN = NaN"
| "js_mul a b = inf_of_sign (js_sgn a * js_sgn b)"

fun js_div :: "jsnum \<Rightarrow> jsnum \<Rightarrow> jsnum" where
  "js_div (Fin a) (Fin b) = (if b = 0 then inf_of_sign a else round_double (a / b))"
| "js_div NaN b = NaN"
| "js_div a NaN = NaN"
| "js_div (Fin a) b = Fin 0"
| "js_div a (Fin b) = inf_of_sign (js_sgn a * (if b < 0 then - 1 else 1))"
| "js_div a b = NaN"

fun Math_floor :: "jsnum \<Rightarrow> jsnum" where
  "Math_floor (Fin a) = Fin (of_int \<lfloor>a\<rfloor>)"
| "Math_floor a = a"

text \<open>
  The number whose value is the integer \<open>n\<close>; the number that an integer argument \<open>n\<close>
  is when it reaches a function, the double nearest to it; and the integers that are
  doubles, for which the two agree.
\<close>

definition num :: "int \<Rightarrow> jsnum" where
  "num n = Fin (of_int n)"

definition Number :: "int \<Rightarrow> jsnum" where
  "Number n = round_double (of_int n)"

definition representable :: "int \<Rightarrow> bool" where
  "representable n = (Number n = num n)"

subsection \<open>Protocol constants\<close>

text \<open>
  The module \<^verbatim>\<open>constant.js\<close> is imported by the uploader but its values are not part
  of the sources at hand; the three constants are parameters of the model.
\<close>

record constants =
  DEFAULT_CHUNK_SIZE :: int
  DEFAULT_SEGMENT_MAX_CHUNKS :: int
  DEFAULT_SEGMENT_SIZE :: int

text \<open>Values for the examples: 256-byte chunks, 1024 chunks a segment.\<close>

definition std_constants :: constants where
  "std_constants =
     \<lparr>DEFAULT_CHUNK_SIZE = 256, DEFAULT_SEGMENT_MAX_CHUNKS = 1024,
      DEFAULT_SEGMENT_SIZE = 262144\<rparr>"

subsection \<open>Segment arithmetic\<close>

text \<open>
  \<^verbatim>\<open>return Math.floor((total - 1) / unit + 1);\<close>
\<close>

definition GetSplitNum :: "int \<Rightarrow> int \<Rightarrow> jsnum" where
  "GetSplitNum tot unt =
     Math_floor (js_add (js_div (js_sub (Number tot) (num 1)) (Number unt)) (num 1))"

definition SegmentRange :: "constants \<Rightarrow> int \<Rightarrow> int \<Rightarrow> jsnum \<times> jsnum" where
  "SegmentRange c startChunkIndex fileSize =
     (let totalChunks = GetSplitNum fileSize (DEFAULT_CHUNK_SIZE c);
          startSegmentIndex =
            Math_floor (js_div (Number startChunkIndex) (Number (DEFAULT_SEGMENT_MAX_CHUNKS c)));
          endChunkIndex = js_sub (js_add (Number startChunkIndex) totalChunks) (num 1);
          endSegmentIndex =
            Math_floor (js_div endChunkIndex (Number (DEFAULT_SEGMENT_MAX_CHUNKS c)))
      in (startSegmentIndex, endSegmentIndex))"

record ShardConfig =
  shardId :: int
  numShard :: int

definition nextSgmentIndex :: "ShardConfig \<Rightarrow> int \<Rightarrow> jsnum" where
  "nextSgmentIndex config startIndex =
     (if numShard config < 2 then Number startIndex
      else js_add
             (js_mul
                (Math_floor
                   (js_div
                      (js_sub
                         (js_sub (js_add (Number startIndex) (Number (numShard config))) (num 1))
                         (Number (shardId config)))
                      (Number (numShard config))))
                (Number (numShard config)))
             (Number (shardId config)))"

text \<open>
  The same three functions on integers: what they compute as long as no operation rounds
  (see \<open>GetSplitNum_exact\<close>, \<open>SegmentRange_exact\<close> and \<open>nextSgmentIndex_exact\<close> below).
  The task planner, whose own sums and products are integers, uses these.
\<close>

definition GetSplitNum_int :: "int \<Rightarrow> int \<Rightarrow> int" where
  "GetSplitNum_int tot unt = (tot - 1) div unt + 1"

definition SegmentRange_int :: "constants \<Rightarrow> int \<Rightarrow> int \<Rightarrow> int \<times> int" where
  "SegmentRange_int c startChunkIndex fileSize =
     (let totalChunks = GetSplitNum_int fileSize (DEFAULT_CHUNK_SIZE c);
          startSegmentIndex = startChunkIndex div DEFAULT_SEGMENT_MAX_CHUNKS c;
          endChunkIndex = startChunkIndex + totalChunks - 1;
          endSegmentIndex = endChunkIndex div DEFAULT_SEGMENT_MAX_CHUNKS c
      in (startSegmentIndex, endSegmentIndex))"

definition nextSgmentIndex_int :: "ShardConfig \<Rightarrow> int \<Rightarrow> int" where
  "nextSgmentIndex_int config startIndex =
     (if numShard config < 2 then startIndex
      else (startIndex + numShard config - 1 - shardId config) div numShard config
             * numShard config
           + shardId config)"

section \<open>Errors, retry options and receipts\<close>

subsection \<open>Thrown values\<close>

text \<open>
  The uploader classifies what a call throws by \<^verbatim>\<open>instanceof Error\<close>, by substrings of
  \<^verbatim>\<open>error.message\<close> and by the optional field \<^verbatim>\<open>error.data\<close>, which is absent, a
  string, or an object that may carry a \<^verbatim>\<open>message\<close> string of its own.
\<close>

datatype errData =
    DataUndefined
  | DataString string
  | DataObject "string option"

datatype thrown =
    JsError (err_message: string) (err_data: errData)
  | NonError string

text \<open>\<^verbatim>\<open>s.includes(sub)\<close> on strings: \<open>sub\<close> occurs in \<open>s\<close> as a contiguous run.\<close>

primrec str_includes :: "string \<Rightarrow> string \<Rightarrow> bool" where
  "str_includes [] sub = (sub = [])"
| "str_includes (c # cs) sub = (prefix sub (c # cs) \<or> str_includes cs sub)"

text \<open>\<^verbatim>\<open>e instanceof Error && e.message.includes('timeout')\<close>\<close>

definition isTimeoutError :: "thrown \<Rightarrow> bool" where
  "isTimeoutError e =
     (case e of JsError m d \<Rightarrow> str_includes m ''timeout'' | NonError v \<Rightarrow> False)"

text \<open>\<^verbatim>\<open>error.data?.includes?.(sub)\<close>: of these shapes only a string has the method.\<close>

definition data_includes :: "errData \<Rightarrow> string \<Rightarrow> bool" where
  "data_includes d sub =
     (case d of DataString s \<Rightarrow> str_includes s sub | DataUndefined \<Rightarrow> False | DataObject m \<Rightarrow> False)"

text \<open>\<^verbatim>\<open>error.data?.message?.includes(sub)\<close>\<close>

definition data_message_includes :: "errData \<Rightarrow> string \<Rightarrow> bool" where
  "data_message_includes d sub =
     (case d of DataObject (Some m) \<Rightarrow> str_includes m sub | DataObject None \<Rightarrow> False
      | DataString s \<Rightarrow> False | DataUndefined \<Rightarrow> False)"

definition isAlreadyUploadedError :: "thrown \<Rightarrow> bool" where
  "isAlreadyUploadedError error =
     (case error of
        JsError m d \<Rightarrow>
          data_includes d ''already uploaded and finalized''
          \<or> (str_includes m ''Invalid params'' \<and> d = DataString ''already uploaded and finalized'')
      | NonError v \<Rightarrow> False)"

definition isRetryableError :: "thrown \<Rightarrow> bool" where
  "isRetryableError error =
     (case error of
        JsError m d \<Rightarrow>
          str_includes m ''too many data writing''
          \<or> str_includes m ''returned null for upload segments''
          \<or> data_message_includes d ''too many data writing''
      | NonError v \<Rightarrow> False)"

subsection \<open>Retry options\<close>

text \<open>
  The object \<^verbatim>\<open>retryOpts\<close>; a field is \<open>None\<close> where it is \<^verbatim>\<open>undefined\<close>, and the
  whole object may be \<^verbatim>\<open>undefined\<close> (\<open>RetryOpts option\<close>).
\<close>

record RetryOpts =
  Retries :: "int option"
  Interval :: "int option"
  MaxGasPrice :: "int option"
  TooManyDataRetries :: "int option"

subsection \<open>Waiting for a receipt\<close>

record Receipt =
  hash :: string
  status :: "int option"

text \<open>What one call of \<^verbatim>\<open>provider.getTransactionReceipt(txHash)\<close> does.\<close>

datatype pollResult =
    PollThrows thrown
  | PollReturns "Receipt option"

text \<open>
  The outcome of \<^verbatim>\<open>waitForReceipt\<close>: what it returns or throws, the number of calls of
  \<^verbatim>\<open>getTransactionReceipt\<close>, the arguments of its \<^verbatim>\<open>delay\<close> calls in milliseconds
  (\<open>None\<close> is \<^verbatim>\<open>NaN\<close>, from an undefined interval), and the options object as the
  function leaves it.
\<close>

record waitOutcome =
  wr_result :: "thrown + Receipt option"
  wr_polls :: nat
  wr_delays :: "int option list"
  wr_opts :: RetryOpts

text \<open>\<^verbatim>\<open>nTries < opts.Retries\<close>; a comparison with \<^verbatim>\<open>undefined\<close> is false.\<close>

definition lt_opt :: "int \<Rightarrow> int option \<Rightarrow> bool" where
  "lt_opt n r = (case r of None \<Rightarrow> False | Some k \<Rightarrow> n < k)"

text \<open>\<^verbatim>\<open>receipt !== null && receipt.status == 1\<close>\<close>

definition receipt_ok :: "Receipt option \<Rightarrow> bool" where
  "receipt_ok receipt = (case receipt of None \<Rightarrow> False | Some r \<Rightarrow> status r = Some 1)"

text \<open>
  The polling loop of both versions of \<^verbatim>\<open>waitForReceipt\<close>. The provider is the
  sequence of its answers: \<open>provider k\<close> answers the call number \<open>k\<close> (from 0).
\<close>

function pollLoop ::
  "(nat \<Rightarrow> pollResult) \<Rightarrow> RetryOpts \<Rightarrow> int \<Rightarrow> nat \<Rightarrow> int option list \<Rightarrow> waitOutcome" where
  "pollLoop provider opts nTries polls delays =
     (if lt_opt nTries (Retries opts) then
        (case provider polls of
           PollThrows e \<Rightarrow>
             \<lparr>wr_result = Inl e, wr_polls = polls + 1, wr_delays = delays, wr_opts = opts\<rparr>
         | PollReturns receipt \<Rightarrow>
             if receipt_ok receipt then
               \<lparr>wr_result = Inr receipt, wr_polls = polls + 1, wr_delays = delays,
                wr_opts = opts\<rparr>
             else
               pollLoop provider opts (nTries + 1) (polls + 1)
                 (delays @ [map_option (\<lambda>i. i * 1000) (Interval opts)]))
      else \<lparr>wr_result = Inr None, wr_polls = polls, wr_delays = delays, wr_opts = opts\<rparr>)"
  by pat_completeness auto
termination
  by (relation "measure (\<lambda>(provider, opts, nTries, polls, delays).
        case Retries opts of None \<Rightarrow> 0 | Some r \<Rightarrow> nat (r - nTries))")
     (auto simp: lt_opt_def split: option.splits)

declare pollLoop.simps [simp del]

definition default_opts :: RetryOpts where
  "default_opts =
     \<lparr>Retries = Some 10, Interval = Some 5, MaxGasPrice = Some 0, TooManyDataRetries = None\<rparr>"

text \<open>
  \<^verbatim>\<open>if (opts.Retries === undefined || opts.Retries === 0) opts.Retries = 10;\<close> and the
  same for \<^verbatim>\<open>Interval\<close> with 5, as \<^verbatim>\<open>waitForReceipt\<close> of \<^verbatim>\<open>utils.js\<close> does on the
  object it was given.
\<close>

definition fill_defaults :: "RetryOpts \<Rightarrow> RetryOpts" where
  "fill_defaults opts =
     (let opts1 = (if Retries opts = None \<or> Retries opts = Some 0
                   then opts\<lparr>Retries := Some 10\<rparr> else opts);
          opts2 = (if Interval opts1 = None \<or> Interval opts1 = Some 0
                   then opts1\<lparr>Interval := Some 5\<rparr> else opts1)
      in opts2)"

text \<open>\<^verbatim>\<open>waitForReceipt(provider, txHash, opts)\<close> of \<^verbatim>\<open>utils.js\<close>.\<close>

definition waitForReceipt :: "(nat \<Rightarrow> pollResult) \<Rightarrow> RetryOpts option \<Rightarrow> waitOutcome" where
  "waitForReceipt provider opts =
     (let opts0 = (case opts of None \<Rightarrow> default_opts | Some given \<Rightarrow> given)
      in pollLoop provider (fill_defaults opts0) 0 0 [])"

text \<open>The method \<^verbatim>\<open>Uploader.waitForReceipt(txHash, opts)\<close>, which fills in no field.\<close>

definition Uploader_waitForReceipt ::
  "(nat \<Rightarrow> pollResult) \<Rightarrow> RetryOpts option \<Rightarrow> waitOutcome" where
  "Uploader_waitForReceipt provider opts =
     (let opts0 = (case opts of None \<Rightarrow> default_opts | Some given \<Rightarrow> given)
      in pollLoop provider opts0 0 0 [])"

section \<open>Submitting the transaction\<close>

text \<open>\<^verbatim>\<open>a / b\<close> on two \<^verbatim>\<open>BigInt\<close>s rounds towards zero.\<close>

definition bigint_div :: "int \<Rightarrow> int \<Rightarrow> int" where
  "bigint_div a b = sgn a * sgn b * (\<bar>a\<bar> div \<bar>b\<bar>)"

text \<open>
  What the ledger does with one submission: \<^verbatim>\<open>send\<close> or \<^verbatim>\<open>resp.wait()\<close> throws,
  \<^verbatim>\<open>resp.wait()\<close> returns \<^verbatim>\<open>null\<close>, or the transaction is mined and the provider
  then answers the polls for its receipt.
\<close>

datatype attemptOutcome =
    SendThrows thrown
  | WaitNull
  | Mined "nat \<Rightarrow> pollResult"

text \<open>
  The body of the \<^verbatim>\<open>try\<close> block of \<^verbatim>\<open>txWithGasAdjustment\<close>: the receipt, or what
  the block throws; and \<^verbatim>\<open>retryOpts\<close> as \<^verbatim>\<open>waitForReceipt\<close> leaves the object.
\<close>

definition submitOnce ::
  "attemptOutcome \<Rightarrow> RetryOpts option \<Rightarrow> (thrown + Receipt) \<times> RetryOpts option" where
  "submitOnce outcome retryOpts =
     (case outcome of
        SendThrows e \<Rightarrow> (Inl e, retryOpts)
      | WaitNull \<Rightarrow> (Inl (JsError ''Send transaction timeout'' DataUndefined), retryOpts)
      | Mined provider \<Rightarrow>
          (let w = waitForReceipt provider retryOpts;
               retryOpts' = map_option (\<lambda>given. wr_opts w) retryOpts
           in case wr_result w of
                Inl e \<Rightarrow> (Inl e, retryOpts')
              | Inr None \<Rightarrow>
                  (Inl (JsError ''Get transaction receipt timeout'' DataUndefined), retryOpts')
              | Inr (Some receipt) \<Rightarrow> (Inr receipt, retryOpts')))"

text \<open>
  The pair \<^verbatim>\<open>[receipt, err]\<close> that \<^verbatim>\<open>txWithGasAdjustment\<close> returns, and the gas
  prices of the submissions it sent, in order.
\<close>

record txOutcome =
  tx_receipt :: "Receipt option"
  tx_err :: "thrown option"
  tx_sent :: "int list"

text \<open>
  The loop \<^verbatim>\<open>while (current_gas_price <= maxGasPrice)\<close>. The ledger is the sequence of
  its reactions: \<open>ledger k\<close> is what happens to submission number \<open>k\<close> (from 0). The loop
  need not end (a price below 10 is not raised by \<open>11 * price / 10\<close>); \<open>None\<close> is a
  run that never returns.
\<close>

partial_function (option) gasLoop ::
  "(nat \<Rightarrow> attemptOutcome) \<Rightarrow> int \<Rightarrow> RetryOpts option \<Rightarrow> nat \<Rightarrow> int \<Rightarrow> thrown option
     \<Rightarrow> int list \<Rightarrow> txOutcome option" where
  "gasLoop ledger maxGasPrice retryOpts k current_gas_price err sent =
     (if current_gas_price \<le> maxGasPrice then
        (case submitOnce (ledger k) retryOpts of
           (Inr receipt, retryOpts') \<Rightarrow>
             Some \<lparr>tx_receipt = Some receipt, tx_err = None,
                   tx_sent = sent @ [current_gas_price]\<rparr>
         | (Inl e, retryOpts') \<Rightarrow>
             if isTimeoutError e then
               gasLoop ledger maxGasPrice retryOpts' (k + 1)
                 (bigint_div (11 * current_gas_price) 10) (Some e)
                 (sent @ [current_gas_price])
             else
               Some \<lparr>tx_receipt = None, tx_err = Some e,
                     tx_sent = sent @ [current_gas_price]\<rparr>)
      else Some \<lparr>tx_receipt = None, tx_err = err, tx_sent = sent\<rparr>)"

declare gasLoop.simps [code]

text \<open>
  \<^verbatim>\<open>let maxGasPrice = current_gas_price;
  if (retryOpts !== undefined && retryOpts.MaxGasPrice > 0) maxGasPrice = BigInt(retryOpts.MaxGasPrice);\<close>
\<close>

definition maxGasPrice_of :: "int \<Rightarrow> RetryOpts option \<Rightarrow> int" where
  "maxGasPrice_of gasPrice retryOpts =
     (case retryOpts of
        None \<Rightarrow> gasPrice
      | Some opts \<Rightarrow>
          (case MaxGasPrice opts of
             None \<Rightarrow> gasPrice
           | Some m \<Rightarrow> if m > 0 then m else gasPrice))"

text \<open>\<^verbatim>\<open>txWithGasAdjustment\<close>, given \<^verbatim>\<open>txOpts.gasPrice\<close> and \<^verbatim>\<open>retryOpts\<close>.\<close>

definition txWithGasAdjustment ::
  "(nat \<Rightarrow> attemptOutcome) \<Rightarrow> int \<Rightarrow> RetryOpts option \<Rightarrow> txOutcome option" where
  "txWithGasAdjustment ledger gasPrice retryOpts =
     gasLoop ledger (maxGasPrice_of gasPrice retryOpts) retryOpts 0 gasPrice None []"

text \<open>\<^verbatim>\<open>String(e)\<close> for what \<^verbatim>\<open>txWithGasAdjustment\<close> hands back as \<^verbatim>\<open>err\<close>.\<close>

definition err_to_string :: "thrown option \<Rightarrow> string" where
  "err_to_string e =
     (case e of None \<Rightarrow> ''null'' | Some (JsError m d) \<Rightarrow> ''Error: '' @ m | Some (NonError v) \<Rightarrow> v)"

text \<open>
  \<^verbatim>\<open>Uploader.submitTransaction\<close> from the choice of the gas price on: \<open>gasPrice\<close> is
  the field \<^verbatim>\<open>this.gasPrice\<close>, \<open>suggestedGasPrice\<close> what
  \<^verbatim>\<open>provider.getFeeData()\<close> reports (\<open>None\<close> is \<^verbatim>\<open>null\<close>). The market contract and
  the fee, read before, do not enter the gas price and are left out. Without a gas price
  nothing is submitted.
\<close>

definition submitTransaction ::
  "(nat \<Rightarrow> attemptOutcome) \<Rightarrow> int \<Rightarrow> int option \<Rightarrow> RetryOpts option \<Rightarrow> txOutcome option" where
  "submitTransaction ledger gasPrice suggestedGasPrice retryOpts =
     (let txOpts_gasPrice = (if gasPrice > 0 then Some gasPrice else suggestedGasPrice)
      in case txOpts_gasPrice of
           None \<Rightarrow>
             Some \<lparr>tx_receipt = None,
                   tx_err = Some (JsError
                     ''Failed to get suggested gas price, set your own gas price''
                     DataUndefined),
                   tx_sent = []\<rparr>
         | Some price \<Rightarrow>
             (case txWithGasAdjustment ledger price retryOpts of
                None \<Rightarrow> None
              | Some out \<Rightarrow>
                  if tx_receipt out = None \<or> tx_err out \<noteq> None then
                    Some \<lparr>tx_receipt = None,
                          tx_err = Some (JsError
                            (''Failed to submit transaction: '' @ err_to_string (tx_err out))
                            DataUndefined),
                          tx_sent = tx_sent out\<rparr>
                  else Some \<lparr>tx_receipt = tx_receipt out, tx_err = None,
                             tx_sent = tx_sent out\<rparr>))"

text \<open>
  For the statements about polling: a receipt whose status is not 1 replaced by no
  receipt at all.
\<close>

definition as_missing :: "pollResult \<Rightarrow> pollResult" where
  "as_missing p =
     (case p of
        PollThrows e \<Rightarrow> PollThrows e
      | PollReturns receipt \<Rightarrow> if receipt_ok receipt then PollReturns receipt else PollReturns None)"

text \<open>
  The number of polls and the interval in force in \<^verbatim>\<open>waitForReceipt\<close> of
  \<^verbatim>\<open>utils.js\<close>: the caller's, and 10 and 5 where the object or the field is undefined
  or 0.
\<close>

definition Retries_in_force :: "RetryOpts option \<Rightarrow> int" where
  "Retries_in_force opts =
     (case opts of
        None \<Rightarrow> 10
      | Some given \<Rightarrow> (case Retries given of None \<Rightarrow> 10 | Some r \<Rightarrow> if r = 0 then 10 else r))"

definition Interval_in_force :: "RetryOpts option \<Rightarrow> int" where
  "Interval_in_force opts =
     (case opts of
        None \<Rightarrow> 5
      | Some given \<Rightarrow> (case Interval given of None \<Rightarrow> 5 | Some i \<Rightarrow> if i = 0 then 5 else i))"

text \<open>
  The number of polls and the argument of \<^verbatim>\<open>delay\<close> in the method
  \<^verbatim>\<open>Uploader.waitForReceipt\<close>, which takes 10 and 5 seconds only where the whole
  options object is undefined: with an object that has no \<^verbatim>\<open>Retries\<close> it does not poll,
  and with one that has no \<^verbatim>\<open>Interval\<close> the delay is \<^verbatim>\<open>NaN\<close>.
\<close>

definition method_polls :: "RetryOpts option \<Rightarrow> nat" where
  "method_polls opts =
     (case opts of
        None \<Rightarrow> 10
      | Some given \<Rightarrow> (case Retries given of None \<Rightarrow> 0 | Some r \<Rightarrow> nat r))"

definition method_delay :: "RetryOpts option \<Rightarrow> int option" where
  "method_delay opts =
     (case opts of
        None \<Rightarrow> Some 5000
      | Some given \<Rightarrow> map_option (\<lambda>i. i * 1000) (Interval given))"

text \<open>The polls still to come when the loop stands at \<open>nTries\<close>.\<close>

definition polls_left :: "RetryOpts \<Rightarrow> int \<Rightarrow> nat" where
  "polls_left opts n = (case Retries opts of None \<Rightarrow> 0 | Some r \<Rightarrow> nat (r - n))"

text \<open>A provider that always returns the receipt of a reverted transaction.\<close>

definition reverted :: "nat \<Rightarrow> pollResult" where
  "reverted k = PollReturns (Some \<lparr>hash = ''0xabc'', status = Some 0\<rparr>)"

text \<open>The escalation step of the loop, and the first \<open>n\<close> prices it reaches from \<open>p\<close>.\<close>

definition raise_price :: "int \<Rightarrow> int" where
  "raise_price p = bigint_div (11 * p) 10"

definition prices :: "int \<Rightarrow> nat \<Rightarrow> int list" where
  "prices p n = map (\<lambda>i. (raise_price ^^ i) p) [0..<n]"

text \<open>\<^verbatim>\<open>retryOpts\<close> once \<^verbatim>\<open>waitForReceipt\<close> has filled in its defaults.\<close>

definition filled :: "RetryOpts option \<Rightarrow> RetryOpts option" where
  "filled retryOpts = map_option fill_defaults retryOpts"

text \<open>A ledger on which every submission times out, and one that rejects the first.\<close>

definition always_timeout :: "nat \<Rightarrow> attemptOutcome" where
  "always_timeout k = WaitNull"

definition rejecting :: "nat \<Rightarrow> attemptOutcome" where
  "rejecting k = SendThrows (JsError ''insufficient funds'' DataUndefined)"

definition third_time_lucky :: "nat \<Rightarrow> attemptOutcome" where
  "third_time_lucky k =
     (if k < 2 then WaitNull
      else Mined (\<lambda>i. PollReturns (Some \<lparr>hash = ''0xabc'', status = Some 1\<rparr>)))"

text \<open>Retry options that only cap the gas price, at 125.\<close>

definition capped :: "RetryOpts option" where
  "capped = Some \<lparr>Retries = None, Interval = None, MaxGasPrice = Some 125,
                  TooManyDataRetries = None\<rparr>"

section \<open>Reading and uploading segments\<close>

subsection \<open>The file, the tree and the nodes\<close>

type_synonym bytes = "8 word list"

text \<open>
  One step of the iterator that \<^verbatim>\<open>file.iterateWithOffsetAndBatch\<close> returns: the pair
  \<^verbatim>\<open>[ok, err]\<close> of \<^verbatim>\<open>iter.next()\<close>, and the bytes of \<^verbatim>\<open>iter.current()\<close>.
\<close>

record iterResult =
  next_ok :: bool
  next_err :: "thrown option"
  current :: bytes

record FileModel =
  numChunks :: int
  file_size :: int
  iterateWithOffsetAndBatch :: "int \<Rightarrow> int \<Rightarrow> bool \<Rightarrow> iterResult"

record 'p MerkleTree =
  rootHash :: string
  proofAt :: "int \<Rightarrow> 'p"

record 'p SegmentWithProof =
  seg_root :: string
  seg_data :: string
  seg_index :: int
  seg_proof :: 'p
  seg_fileSize :: int

record Tx =
  seq :: int
  startEntryIndex :: int
  tx_size :: int

record FileInfo =
  tx :: Tx
  finalized :: bool

text \<open>What a node answers to \<^verbatim>\<open>getFileInfo(rootHash, true)\<close>.\<close>

datatype infoResponse =
    InfoThrows thrown
  | InfoReturns "FileInfo option"

text \<open>What a node does on one call of \<^verbatim>\<open>uploadSegmentsByTxSeq\<close>.\<close>

datatype uploadResponse =
    UploadThrows thrown
  | UploadReturns "int option"

text \<open>
  A storage node as the uploader sees it. Within one task every call of
  \<^verbatim>\<open>uploadSegmentsByTxSeq\<close> passes the same segments and sequence number, so the node
  is the sequence of its reactions: \<open>uploadSegmentsByTxSeq node k\<close> is the reaction to
  the call number \<open>k\<close> (from 0).
\<close>

record NodeModel =
  url :: string
  getFileInfo :: infoResponse
  uploadSegmentsByTxSeq :: "nat \<Rightarrow> uploadResponse"

record UploadTask =
  clientIndex :: nat
  taskSize :: int
  segIndex :: int
  task_numShard :: int
  txSeq :: int

subsection \<open>One segment\<close>

text \<open>\<^verbatim>\<open>segment.slice(0, end)\<close>: a negative end counts from the end of the array.\<close>

definition slice0 :: "'a list \<Rightarrow> int \<Rightarrow> 'a list" where
  "slice0 xs e = take (nat (if e < 0 then int (length xs) + e else e)) xs"

text \<open>
  \<^verbatim>\<open>getSegment\<close> returns \<^verbatim>\<open>[allDataUploaded, segWithProof, err]\<close>. The encoder
  \<^verbatim>\<open>encodeBase64\<close> of the library \<^verbatim>\<open>ethers\<close> is a parameter.
\<close>

definition getSegment ::
  "constants \<Rightarrow> (bytes \<Rightarrow> string) \<Rightarrow> FileModel \<Rightarrow> 'p MerkleTree \<Rightarrow> int
     \<Rightarrow> bool \<times> 'p SegmentWithProof option \<times> thrown option" where
  "getSegment c encodeBase64 file tree segIdx =
     (let nChunks = numChunks file;
          startSegIndex = segIdx * DEFAULT_SEGMENT_MAX_CHUNKS c
      in if startSegIndex \<ge> nChunks then (True, None, None)
         else
           let iter = iterateWithOffsetAndBatch file (segIdx * DEFAULT_SEGMENT_SIZE c)
                        (DEFAULT_SEGMENT_SIZE c) True
           in if \<not> next_ok iter then (False, None, next_err iter)
              else
                let segment = current iter;
                    prf = proofAt tree segIdx;
                    startIndex = segIdx * DEFAULT_SEGMENT_MAX_CHUNKS c;
                    final = (real_of_int startIndex
                               + real (length segment) / real_of_int (DEFAULT_CHUNK_SIZE c)
                             \<ge> real_of_int nChunks);
                    expectedLen = DEFAULT_CHUNK_SIZE c * (nChunks - startIndex);
                    segment' = (if final then slice0 segment expectedLen else segment);
                    segWithProof =
                      \<lparr>seg_root = rootHash tree, seg_data = encodeBase64 segment',
                       seg_index = segIdx, seg_proof = prf, seg_fileSize = file_size file\<rparr>
                in (final, Some segWithProof, None))"

subsection \<open>One task\<close>

text \<open>The \<^verbatim>\<open>for\<close> loop of \<^verbatim>\<open>uploadTask\<close> that reads the segments of the task.\<close>

function readSegments ::
  "constants \<Rightarrow> (bytes \<Rightarrow> string) \<Rightarrow> FileModel \<Rightarrow> 'p MerkleTree \<Rightarrow> UploadTask \<Rightarrow> int \<Rightarrow> int
     \<Rightarrow> 'p SegmentWithProof list \<Rightarrow> thrown + 'p SegmentWithProof list" where
  "readSegments c encodeBase64 file tree task i segIdx segments =
     (if i < taskSize task then
        (case getSegment c encodeBase64 file tree segIdx of
           (allDataUploaded, segWithProof, err) \<Rightarrow>
             (case err of
                Some e \<Rightarrow> Inl e
              | None \<Rightarrow>
                  let segments' = (case segWithProof of
                                     Some s \<Rightarrow> segments @ [s]
                                   | None \<Rightarrow> segments)
                  in if allDataUploaded then Inr segments'
                     else readSegments c encodeBase64 file tree task (i + 1)
                            (segIdx + task_numShard task) segments'))
      else Inr segments)"
  by pat_completeness auto
termination
  by (relation "measure (\<lambda>(c, encodeBase64, file, tree, task, i, segIdx, segments).
        nat (taskSize task - i))") auto

declare readSegments.simps [simp del]

text \<open>\<^verbatim>\<open>String(n)\<close> for an integral number.\<close>

fun nat_to_string :: "nat \<Rightarrow> string" where
  "nat_to_string n =
     (if n < 10 then [''0123456789'' ! n]
      else nat_to_string (n div 10) @ [''0123456789'' ! (n mod 10)])"

declare nat_to_string.simps [simp del]

definition int_to_string :: "int \<Rightarrow> string" where
  "int_to_string i =
     (if i < 0 then CHR ''-'' # nat_to_string (nat (- i)) else nat_to_string (nat i))"

text \<open>\<^verbatim>\<open>retryOpts?.TooManyDataRetries ?? 3\<close> and \<^verbatim>\<open>retryOpts?.Interval ?? 3\<close>\<close>

definition maxRetries_of :: "RetryOpts option \<Rightarrow> int" where
  "maxRetries_of retryOpts =
     (case retryOpts of
        None \<Rightarrow> 3
      | Some opts \<Rightarrow> (case TooManyDataRetries opts of None \<Rightarrow> 3 | Some n \<Rightarrow> n))"

definition interval_of :: "RetryOpts option \<Rightarrow> int" where
  "interval_of retryOpts =
     (case retryOpts of
        None \<Rightarrow> 3
      | Some opts \<Rightarrow> (case Interval opts of None \<Rightarrow> 3 | Some n \<Rightarrow> n))"

text \<open>
  What \<^verbatim>\<open>uploadTask\<close> resolves to: the node's acknowledgement or 0, an error value
  that it returns, or a rejection (an exception that leaves the function).
\<close>

datatype taskResult =
    Returned int
  | ReturnedError thrown
  | Rejected thrown

text \<open>
  The result of a task with the number of calls of \<^verbatim>\<open>uploadSegmentsByTxSeq\<close> and the
  waiting times, in milliseconds, of the pauses before the retries.
\<close>

record taskOutcome =
  ut_result :: taskResult
  ut_uploads :: nat
  ut_sleeps :: "int list"

text \<open>What the \<^verbatim>\<open>catch\<close> block receives when the \<^verbatim>\<open>try\<close> block does not return.\<close>

definition caught :: "NodeModel \<Rightarrow> uploadResponse \<Rightarrow> thrown" where
  "caught node response =
     (case response of
        UploadThrows e \<Rightarrow> e
      | UploadReturns res \<Rightarrow>
          JsError (''Node '' @ url node @ '' returned null for upload segments'') DataUndefined)"

text \<open>\<^verbatim>\<open>error instanceof Error ? error.message : String(error)\<close>\<close>

definition errorMessage_of :: "thrown \<Rightarrow> string" where
  "errorMessage_of error = (case error of JsError m d \<Rightarrow> m | NonError v \<Rightarrow> v)"

text \<open>The loop \<^verbatim>\<open>while (attempt < maxRetries)\<close> of \<^verbatim>\<open>uploadTask\<close>.\<close>

function uploadLoop ::
  "NodeModel \<Rightarrow> RetryOpts option \<Rightarrow> int \<Rightarrow> int \<Rightarrow> thrown option \<Rightarrow> nat \<Rightarrow> int list
     \<Rightarrow> taskOutcome" where
  "uploadLoop node retryOpts maxRetries attempt lastError uploads sleeps =
     (if attempt < maxRetries then
        (case uploadSegmentsByTxSeq node uploads of
           UploadReturns (Some res) \<Rightarrow>
             \<lparr>ut_result = Returned res, ut_uploads = uploads + 1, ut_sleeps = sleeps\<rparr>
         | response \<Rightarrow>
             (let error = caught node response
              in if isAlreadyUploadedError error then
                   \<lparr>ut_result = Returned 0, ut_uploads = uploads + 1, ut_sleeps = sleeps\<rparr>
                 else if isRetryableError error then
                   (if attempt < maxRetries - 1 then
                      uploadLoop node retryOpts maxRetries (attempt + 1) (Some error)
                        (uploads + 1)
                        (sleeps @ [interval_of retryOpts * 1000 * (attempt + 1)])
                    else
                      \<lparr>ut_result = ReturnedError (JsError
                         (''Failed after '' @ int_to_string maxRetries @ '' attempts: ''
                            @ errorMessage_of error) DataUndefined),
                       ut_uploads = uploads + 1, ut_sleeps = sleeps\<rparr>)
                 else
                   \<lparr>ut_result = ReturnedError error, ut_uploads = uploads + 1,
                    ut_sleeps = sleeps\<rparr>))
      else
        \<lparr>ut_result = ReturnedError
           (case lastError of
              Some e \<Rightarrow> e
            | None \<Rightarrow> JsError (''Upload failed after '' @ int_to_string maxRetries
                                 @ '' attempts to node '' @ url node) DataUndefined),
         ut_uploads = uploads, ut_sleeps = sleeps\<rparr>)"
  by pat_completeness auto
termination
  by (relation "measure (\<lambda>(node, retryOpts, maxRetries, attempt, lastError, uploads, sleeps).
        nat (maxRetries - attempt))") auto

declare uploadLoop.simps [simp del]

text \<open>
  \<^verbatim>\<open>uploadTask\<close>. A client index outside \<^verbatim>\<open>this.nodes\<close> makes the call on
  \<^verbatim>\<open>undefined\<close> throw a \<^verbatim>\<open>TypeError\<close>, and the handler, which reads the node's
  \<^verbatim>\<open>url\<close>, throw it again.
\<close>

definition uploadTask ::
  "constants \<Rightarrow> (bytes \<Rightarrow> string) \<Rightarrow> NodeModel list \<Rightarrow> FileModel \<Rightarrow> 'p MerkleTree \<Rightarrow> UploadTask
     \<Rightarrow> RetryOpts option \<Rightarrow> taskOutcome" where
  "uploadTask c encodeBase64 nodes file tree task retryOpts =
     (case readSegments c encodeBase64 file tree task 0 (segIndex task) [] of
        Inl err \<Rightarrow> \<lparr>ut_result = ReturnedError err, ut_uploads = 0, ut_sleeps = []\<rparr>
      | Inr segments \<Rightarrow>
          if clientIndex task < length nodes then
            uploadLoop (nodes ! clientIndex task) retryOpts (maxRetries_of retryOpts) 0 None 0 []
          else
            \<lparr>ut_result = Rejected (JsError
               ''TypeError: Cannot read properties of undefined'' DataUndefined),
             ut_uploads = 0, ut_sleeps = []\<rparr>)"

subsection \<open>A small file and two nodes\<close>

text \<open>
  Constants small enough to write the bytes out (2-byte chunks, 4 chunks a segment), a
  file of 6 chunks whose iterator pads every batch to a whole segment, and its tree.
\<close>

definition small_constants :: constants where
  "small_constants =
     \<lparr>DEFAULT_CHUNK_SIZE = 2, DEFAULT_SEGMENT_MAX_CHUNKS = 4, DEFAULT_SEGMENT_SIZE = 8\<rparr>"

definition small_file :: FileModel where
  "small_file =
     \<lparr>numChunks = 6, file_size = 12,
      iterateWithOffsetAndBatch = (\<lambda>offset batch padding.
        \<lparr>next_ok = True, next_err = None, current = [1, 2, 3, 4, 5, 6, 7, 8]\<rparr>)\<rparr>"

definition small_tree :: "int MerkleTree" where
  "small_tree = \<lparr>rootHash = ''0xroot'', proofAt = (\<lambda>i. i)\<rparr>"

definition hex_of :: "bytes \<Rightarrow> string" where
  "hex_of bs = map (\<lambda>b. ''0123456789abcdef'' ! unat b) bs"

text \<open>
  A failed upload that the handler takes for a transient one: the node returned
  \<^verbatim>\<open>null\<close>, or threw an error that \<^verbatim>\<open>isRetryableError\<close> accepts and
  \<^verbatim>\<open>isAlreadyUploadedError\<close>, which is asked first, does not.
\<close>

definition retryable_failure :: "uploadResponse \<Rightarrow> bool" where
  "retryable_failure response =
     (case response of
        UploadReturns None \<Rightarrow> True
      | UploadReturns (Some res) \<Rightarrow> False
      | UploadThrows e \<Rightarrow> isRetryableError e \<and> \<not> isAlreadyUploadedError e)"

text \<open>
  A node that is busy twice (once by an error, once by a \<^verbatim>\<open>null\<close> acknowledgement) and
  then acknowledges 4 segments; a node that has the file already; the task of uploading
  segment 0 to the only node.
\<close>

definition busy_node :: NodeModel where
  "busy_node =
     \<lparr>url = ''http://node0'', getFileInfo = InfoReturns None,
      uploadSegmentsByTxSeq = (\<lambda>k.
        if k = 0 then UploadThrows (JsError ''too many data writing'' DataUndefined)
        else if k = 1 then UploadReturns None
        else UploadReturns (Some 4))\<rparr>"

definition finalized_node :: NodeModel where
  "finalized_node =
     \<lparr>url = ''http://node0'', getFileInfo = InfoReturns None,
      uploadSegmentsByTxSeq = (\<lambda>k.
        UploadThrows (JsError ''Invalid params''
          (DataString ''segment has already uploaded and finalized'')))\<rparr>"

definition first_task :: UploadTask where
  "first_task = \<lparr>clientIndex = 0, taskSize = 1, segIndex = 0, task_numShard = 1, txSeq = 7\<rparr>"

definition no_retries :: "RetryOpts option" where
  "no_retries = Some \<lparr>Retries = None, Interval = None, MaxGasPrice = None,
                      TooManyDataRetries = Some 0\<rparr>"

section \<open>Planning the tasks\<close>

text \<open>
  The planner works on segment indices, which are small integers: its numbers are \<open>int\<close>,
  and where the source calls \<^verbatim>\<open>SegmentRange\<close> and \<^verbatim>\<open>nextSgmentIndex\<close> the model
  takes their values on integers.
\<close>

text \<open>The fields of the upload options that \<^verbatim>\<open>splitTasks\<close> reads.\<close>

record UploadOption =
  opts_taskSize :: int
  expectedReplica :: int

text \<open>
  The loop \<^verbatim>\<open>while (segIndex <= endSegmentIndex)\<close> that builds the tasks of one node.
  It never ends when \<^verbatim>\<open>numShard * opts.taskSize\<close> is not positive; \<open>None\<close> is a run
  that never returns.
\<close>

partial_function (option) taskLoop ::
  "nat \<Rightarrow> int \<Rightarrow> ShardConfig \<Rightarrow> int \<Rightarrow> int \<Rightarrow> int \<Rightarrow> int \<Rightarrow> UploadTask list
     \<Rightarrow> UploadTask list option" where
  "taskLoop client tsize shardConfig txs startSegmentIndex endSegmentIndex segIdx tasks =
     (if segIdx \<le> endSegmentIndex then
        taskLoop client tsize shardConfig txs startSegmentIndex endSegmentIndex
          (segIdx + numShard shardConfig * tsize)
          (tasks @ [\<lparr>clientIndex = client, taskSize = tsize,
                     segIndex = segIdx - startSegmentIndex,
                     task_numShard = numShard shardConfig, txSeq = txs\<rparr>])
      else Some tasks)"

declare taskLoop.simps [code]

text \<open>\<^verbatim>\<open>cInfo !== null && cInfo.finalized\<close>\<close>

definition already_finalized :: "FileInfo option \<Rightarrow> bool" where
  "already_finalized cInfo = (case cInfo of None \<Rightarrow> False | Some i \<Rightarrow> finalized i)"

text \<open>
  The loop \<^verbatim>\<open>for (clientIndex = 0; clientIndex < shardConfigs.length; clientIndex++)\<close>,
  which collects the non-empty task lists of the nodes in \<^verbatim>\<open>uploadTasks\<close>. A rejected
  \<^verbatim>\<open>getFileInfo\<close>, or a client index outside \<^verbatim>\<open>this.nodes\<close>, leaves the function
  as an exception.
\<close>

function nodeLoop ::
  "NodeModel list \<Rightarrow> ShardConfig list \<Rightarrow> UploadOption \<Rightarrow> int \<Rightarrow> int \<Rightarrow> int \<Rightarrow> nat
     \<Rightarrow> UploadTask list list \<Rightarrow> (thrown + UploadTask list list) option" where
  "nodeLoop nodes shardConfigs opts txs startSegmentIndex endSegmentIndex client uploadTasks =
     (if client < length shardConfigs then
        (if client < length nodes then
           (case getFileInfo (nodes ! client) of
              InfoThrows e \<Rightarrow> Some (Inl e)
            | InfoReturns cInfo \<Rightarrow>
                if already_finalized cInfo then
                  nodeLoop nodes shardConfigs opts txs startSegmentIndex endSegmentIndex
                    (client + 1) uploadTasks
                else
                  (case taskLoop client (opts_taskSize opts) (shardConfigs ! client) txs
                          startSegmentIndex endSegmentIndex
                          (nextSgmentIndex_int (shardConfigs ! client) startSegmentIndex) [] of
                     None \<Rightarrow> None
                   | Some tasks \<Rightarrow>
                       nodeLoop nodes shardConfigs opts txs startSegmentIndex endSegmentIndex
                         (client + 1)
                         (if tasks \<noteq> [] then uploadTasks @ [tasks] else uploadTasks)))
         else Some (Inl (JsError ''TypeError: Cannot read properties of undefined''
                           DataUndefined)))
      else Some (Inr uploadTasks))"
  by pat_completeness auto
termination
  by (relation "measure (\<lambda>(nodes, shardConfigs, opts, txs, startSegmentIndex, endSegmentIndex,
        client, uploadTasks). length shardConfigs - client)") auto

declare nodeLoop.simps [simp del]

text \<open>
  The inner loop of the interleaving,
  \<^verbatim>\<open>for (i = 0; i < uploadTasks.length && taskIndex < uploadTasks[i].length; i++)\<close>: it
  takes the task number \<open>taskIndex\<close> of each list, and stops at the first list that is
  too short.
\<close>

fun roundOf :: "nat \<Rightarrow> 'a list list \<Rightarrow> 'a list" where
  "roundOf taskIndex [] = []"
| "roundOf taskIndex (ts # rest) =
     (if taskIndex < length ts then ts ! taskIndex # roundOf taskIndex rest else [])"

text \<open>
  \<^verbatim>\<open>uploadTasks.sort((a, b) => a.length - b.length)\<close>, a stable sort by increasing
  length, and the outer loop
  \<^verbatim>\<open>for (taskIndex = 0; taskIndex < uploadTasks[0].length; taskIndex++)\<close>.
\<close>

definition interleave :: "'a list list \<Rightarrow> 'a list" where
  "interleave uploadTasks =
     (case sort_key length uploadTasks of
        [] \<Rightarrow> []
      | first # rest \<Rightarrow>
          concat (map (\<lambda>taskIndex. roundOf taskIndex (first # rest)) [0..<length first]))"

text \<open>What \<^verbatim>\<open>splitTasks\<close> resolves to.\<close>

datatype splitResult =
    SplitNull
  | SplitTasks "UploadTask list"
  | SplitThrows thrown

text \<open>
  \<^verbatim>\<open>splitTasks\<close>. The helpers \<^verbatim>\<open>getShardConfigs\<close> and \<^verbatim>\<open>checkReplica\<close> are imported
  from modules that are not part of the sources at hand: the result of the first
  (\<open>None\<close> is \<^verbatim>\<open>null\<close>) and the second are parameters.
\<close>

definition splitTasks ::
  "constants \<Rightarrow> (ShardConfig list \<Rightarrow> int \<Rightarrow> bool) \<Rightarrow> NodeModel list \<Rightarrow> ShardConfig list option
     \<Rightarrow> FileInfo \<Rightarrow> UploadOption \<Rightarrow> splitResult option" where
  "splitTasks c checkReplica nodes shardConfigsResult info opts =
     (case shardConfigsResult of
        None \<Rightarrow> Some SplitNull
      | Some shardConfigs \<Rightarrow>
          if \<not> checkReplica shardConfigs (expectedReplica opts) then Some SplitNull
          else
            (case SegmentRange_int c (startEntryIndex (tx info)) (tx_size (tx info)) of
               (startSegmentIndex, endSegmentIndex) \<Rightarrow>
                 (case nodeLoop nodes shardConfigs opts (seq (tx info)) startSegmentIndex
                         endSegmentIndex 0 [] of
                    None \<Rightarrow> None
                  | Some (Inl e) \<Rightarrow> Some (SplitThrows e)
                  | Some (Inr uploadTasks) \<Rightarrow>
                      if uploadTasks = [] then Some (SplitTasks [])
                      else Some (SplitTasks (interleave uploadTasks)))))"

subsection \<open>A file of three segments on two nodes\<close>

text \<open>
  The log entry of a file of three segments (size 786432 from entry 0, with 256-byte
  chunks and 1024 chunks a segment), tasks of one segment each, a node that reports no
  file and one that reports the file finalized, and the shard configurations of two
  nodes that hold everything and of two nodes that hold one shard each.
\<close>

definition three_segments :: FileInfo where
  "three_segments = \<lparr>tx = \<lparr>seq = 7, startEntryIndex = 0, tx_size = 786432\<rparr>, finalized = False\<rparr>"

definition one_segment_tasks :: UploadOption where
  "one_segment_tasks = \<lparr>opts_taskSize = 1, expectedReplica = 1\<rparr>"

definition fresh_node :: NodeModel where
  "fresh_node =
     \<lparr>url = ''http://fresh'', getFileInfo = InfoReturns None,
      uploadSegmentsByTxSeq = (\<lambda>k. UploadReturns (Some 1))\<rparr>"

definition done_node :: NodeModel where
  "done_node =
     \<lparr>url = ''http://done'',
      getFileInfo = InfoReturns (Some \<lparr>tx = \<lparr>seq = 7, startEntryIndex = 0, tx_size = 786432\<rparr>,
                                       finalized = True\<rparr>),
      uploadSegmentsByTxSeq = (\<lambda>k. UploadReturns (Some 1))\<rparr>"

definition unsharded :: "ShardConfig list" where
  "unsharded = [\<lparr>shardId = 0, numShard = 1\<rparr>, \<lparr>shardId = 0, numShard = 1\<rparr>]"

definition two_shards :: "ShardConfig list" where
  "two_shards = [\<lparr>shardId = 0, numShard = 2\<rparr>, \<lparr>shardId = 1, numShard = 2\<rparr>]"

definition any_replica :: "ShardConfig list \<Rightarrow> int \<Rightarrow> bool" where
  "any_replica shardConfigs expected = True"

text \<open>The task of uploading the segment \<open>i\<close> of that file to the node \<open>client\<close>.\<close>

definition task_for :: "nat \<Rightarrow> int \<Rightarrow> int \<Rightarrow> UploadTask" where
  "task_for client shards i =
     \<lparr>clientIndex = client, taskSize = 1, segIndex = i, task_numShard = shards, txSeq = 7\<rparr>"

section \<open>Rounding to doubles\<close>
























section \<open>Properties of the segment arithmetic\<close>







text \<open>
  Claim C7 as stated fails on large arguments, where the operations round: for
  \<open>total = 7000000000000000\<close> and \<open>unit = 3500000000000000\<close>, both doubles, the quotient
  \<open>(total - 1) / unit\<close> rounds to \<open>2 - 2 ^ (- 52)\<close> and its sum with 1 to 3, so that
  \<open>GetSplitNum\<close> returns 3, where \<open>floor ((total - 1) / unit) + 1\<close> is 2, and
  \<open>(3 - 1) * unit < total\<close> fails.
\<close>

theorem GetSplitNum_rounds_up:
  "representable 7000000000000000 \<and> representable 3500000000000000
   \<and> GetSplitNum 7000000000000000 3500000000000000 = num 3
   \<and> \<lfloor>real_of_int (7000000000000000 - 1) / real_of_int 3500000000000000\<rfloor> + 1 = 2
   \<and> \<not> (3 - 1) * 3500000000000000 < (7000000000000000::int)"
  by code_simp



text \<open>
  Claim C9 as stated fails on large arguments: with 256-byte chunks and 1024 chunks a
  segment, \<open>SegmentRange 9007199254740990 512\<close> is \<open>(8796093022207, 8796093022207)\<close>, and
  1024 chunks further the end chunk index \<open>9007199254742015\<close> is no double and rounds
  up, so that the range is \<open>(8796093022208, 8796093022209)\<close>: the end index has moved
  by 2.
\<close>

theorem SegmentRange_shift_by_two:
  "representable 9007199254740990
   \<and> representable (9007199254740990 + DEFAULT_SEGMENT_MAX_CHUNKS std_constants)
   \<and> SegmentRange std_constants 9007199254740990 512
       = (num 8796093022207, num 8796093022207)
   \<and> SegmentRange std_constants
         (9007199254740990 + DEFAULT_SEGMENT_MAX_CHUNKS std_constants) 512
       = (num 8796093022208, num 8796093022209)"
  by code_simp



text \<open>
  Claim C6 as stated fails on large arguments: for two shards, shard 0 and
  \<open>fromIndex = 9007199254740991\<close>, a double, the sum \<open>fromIndex + numShard\<close> rounds down
  to \<open>2 ^ 53\<close> and \<open>nextSgmentIndex\<close> returns \<open>9007199254740990\<close>, an index below
  \<open>fromIndex\<close>.
\<close>

theorem nextSgmentIndex_below_fromIndex:
  "representable 9007199254740991
   \<and> nextSgmentIndex \<lparr>shardId = 0, numShard = 2\<rparr> 9007199254740991 = num 9007199254740990
   \<and> (9007199254740990::int) < 9007199254740991"
  by code_simp



section \<open>Waiting for a receipt: a revert counts as a missing receipt\<close>

lemma pollLoop_as_missing:
  "pollLoop (\<lambda>k. as_missing (provider k)) opts n p d = pollLoop provider opts n p d"
proof (induction provider opts n p d rule: pollLoop.induct)
  case (1 provider opts nTries polls delays)
  show ?case
  proof (cases "provider polls")
    case (PollThrows e)
    then show ?thesis
      by (simp add: pollLoop.simps [of _ opts nTries polls delays] as_missing_def)
  next
    case (PollReturns receipt)
    show ?thesis
    proof (cases "receipt_ok receipt")
      case True
      with PollReturns show ?thesis
        by (simp add: pollLoop.simps [of _ opts nTries polls delays] as_missing_def)
    next
      case False
      have nk: "\<not> receipt_ok None" by (simp add: receipt_ok_def)
      show ?thesis
      proof (cases "lt_opt nTries (Retries opts)")
        case True
        with PollReturns False nk "1.IH" [OF True PollReturns False] show ?thesis
          by (simp add: pollLoop.simps [of _ opts nTries polls delays] as_missing_def)
      next
        case False
        then show ?thesis
          by (simp add: pollLoop.simps [of _ opts nTries polls delays])
      qed
    qed
  qed
qed

lemma pollLoop_polls_le:
  "wr_polls (pollLoop provider opts n p d) \<le> p + polls_left opts n"
proof (induction provider opts n p d rule: pollLoop.induct)
  case (1 provider opts nTries polls delays)
  show ?case
  proof (cases "lt_opt nTries (Retries opts)")
    case False
    then show ?thesis by (simp add: pollLoop.simps [of _ opts nTries polls delays])
  next
    case True
    then have left: "polls_left opts nTries = Suc (polls_left opts (nTries + 1))"
      by (auto simp: polls_left_def lt_opt_def split: option.splits)
    show ?thesis
    proof (cases "provider polls")
      case (PollThrows e)
      with True left show ?thesis
        by (simp add: pollLoop.simps [of _ opts nTries polls delays])
    next
      case (PollReturns receipt)
      show ?thesis
      proof (cases "receipt_ok receipt")
        case ok: True
        with True PollReturns left show ?thesis
          by (simp add: pollLoop.simps [of _ opts nTries polls delays])
      next
        case nok: False
        with True PollReturns left "1.IH" [OF True PollReturns nok] show ?thesis
          by (simp add: pollLoop.simps [of _ opts nTries polls delays])
      qed
    qed
  qed
qed

lemma pollLoop_all_failed:
  assumes "\<forall>k. \<exists>r. provider k = PollReturns r \<and> \<not> receipt_ok r"
  shows "pollLoop provider opts n p d =
     \<lparr>wr_result = Inr None, wr_polls = p + polls_left opts n,
      wr_delays = d @ replicate (polls_left opts n) (map_option (\<lambda>i. i * 1000) (Interval opts)),
      wr_opts = opts\<rparr>"
  using assms
proof (induction provider opts n p d rule: pollLoop.induct)
  case (1 provider opts nTries polls delays)
  show ?case
  proof (cases "lt_opt nTries (Retries opts)")
    case False
    then have "polls_left opts nTries = 0"
      by (auto simp: polls_left_def lt_opt_def split: option.splits)
    with False show ?thesis by (simp add: pollLoop.simps [of _ opts nTries polls delays])
  next
    case True
    then have left: "polls_left opts nTries = Suc (polls_left opts (nTries + 1))"
      by (auto simp: polls_left_def lt_opt_def split: option.splits)
    from "1.prems" obtain r where r: "provider polls = PollReturns r" "\<not> receipt_ok r"
      by blast
    from "1.IH" [OF True r "1.prems"] True r left show ?thesis
      by (simp add: pollLoop.simps [of _ opts nTries polls delays] replicate_append_same)
  qed
qed

lemma fill_defaults_Retries:
  "Retries (fill_defaults (case opts of None \<Rightarrow> default_opts | Some given \<Rightarrow> given))
     = Some (Retries_in_force opts)"
  by (auto simp: fill_defaults_def Let_def Retries_in_force_def default_opts_def
           split: option.splits)

lemma fill_defaults_Interval:
  "Interval (fill_defaults (case opts of None \<Rightarrow> default_opts | Some given \<Rightarrow> given))
     = Some (Interval_in_force opts)"
  by (auto simp: fill_defaults_def Let_def Interval_in_force_def default_opts_def
           split: option.splits)

lemma polls_left_waitForReceipt:
  "polls_left (fill_defaults (case opts of None \<Rightarrow> default_opts | Some given \<Rightarrow> given)) 0
     = nat (Retries_in_force opts)"
  by (simp add: polls_left_def fill_defaults_Retries)

lemma isTimeoutError_receipt_timeout:
  "isTimeoutError (JsError ''Get transaction receipt timeout'' DataUndefined)"
  by (simp add: isTimeoutError_def)

lemma pollLoop_opts: "wr_opts (pollLoop provider opts n p d) = opts"
proof (induction provider opts n p d rule: pollLoop.induct)
  case (1 provider opts nTries polls delays)
  show ?case
  proof (cases "lt_opt nTries (Retries opts)")
    case False
    then show ?thesis by (simp add: pollLoop.simps [of _ opts nTries polls delays])
  next
    case True
    show ?thesis
    proof (cases "provider polls")
      case (PollThrows e)
      with True show ?thesis by (simp add: pollLoop.simps [of _ opts nTries polls delays])
    next
      case (PollReturns receipt)
      with True "1.IH" [OF True PollReturns] show ?thesis
        by (simp add: pollLoop.simps [of _ opts nTries polls delays])
    qed
  qed
qed

lemma polls_left_method:
  "polls_left (case opts of None \<Rightarrow> default_opts | Some given \<Rightarrow> given) 0 = method_polls opts"
  by (simp add: polls_left_def method_polls_def default_opts_def split: option.splits)

lemma delay_method:
  "map_option (\<lambda>i. i * 1000)
     (Interval (case opts of None \<Rightarrow> default_opts | Some given \<Rightarrow> given)) = method_delay opts"
  by (simp add: method_delay_def default_opts_def split: option.splits)

text \<open>
  Claim C10. In \<^verbatim>\<open>waitForReceipt\<close> a receipt whose status is not 1 counts as no receipt:
  replacing every such receipt by \<^verbatim>\<open>null\<close> changes nothing of a run, in either
  version. The number of polls never exceeds the retries in force (the caller's
  \<^verbatim>\<open>Retries\<close>, 10 by default). When every poll returns a missing or a reverted receipt,
  the function of \<^verbatim>\<open>utils.js\<close> returns \<^verbatim>\<open>null\<close> after exactly that many polls, each
  followed by a delay of the interval in force (5 seconds by default), and
  \<^verbatim>\<open>txWithGasAdjustment\<close> turns the \<^verbatim>\<open>null\<close> into the error
  \<open>Get transaction receipt timeout\<close>, which it handles as a timeout: a revert is not told
  apart. The method \<^verbatim>\<open>Uploader.waitForReceipt\<close> then returns \<^verbatim>\<open>null\<close> as well, after
  exactly its own number of polls and delays: 10 polls 5 seconds apart when the options
  are undefined, and otherwise what the given object says, no field being filled in.
\<close>

theorem waitForReceipt_reverted_is_missing:
  "waitForReceipt (\<lambda>k. as_missing (provider k)) opts = waitForReceipt provider opts
   \<and> Uploader_waitForReceipt (\<lambda>k. as_missing (provider k)) opts
       = Uploader_waitForReceipt provider opts
   \<and> wr_polls (waitForReceipt provider opts) \<le> nat (Retries_in_force opts)
   \<and> wr_polls (Uploader_waitForReceipt provider opts) \<le> method_polls opts
   \<and> method_polls None = 10 \<and> method_delay None = Some 5000
   \<and> ((\<forall>k. \<exists>r. provider k = PollReturns r \<and> \<not> receipt_ok r) \<longrightarrow>
         wr_result (waitForReceipt provider opts) = Inr None
       \<and> wr_polls (waitForReceipt provider opts) = nat (Retries_in_force opts)
       \<and> wr_delays (waitForReceipt provider opts)
           = replicate (nat (Retries_in_force opts)) (Some (Interval_in_force opts * 1000))
       \<and> fst (submitOnce (Mined provider) opts)
           = Inl (JsError ''Get transaction receipt timeout'' DataUndefined)
       \<and> isTimeoutError (JsError ''Get transaction receipt timeout'' DataUndefined)
       \<and> Uploader_waitForReceipt provider opts =
           \<lparr>wr_result = Inr None, wr_polls = method_polls opts,
            wr_delays = replicate (method_polls opts) (method_delay opts),
            wr_opts = (case opts of None \<Rightarrow> default_opts | Some given \<Rightarrow> given)\<rparr>)"
proof (intro conjI impI)
  show "waitForReceipt (\<lambda>k. as_missing (provider k)) opts = waitForReceipt provider opts"
    by (simp add: waitForReceipt_def pollLoop_as_missing)
  show "Uploader_waitForReceipt (\<lambda>k. as_missing (provider k)) opts
       = Uploader_waitForReceipt provider opts"
    by (simp add: Uploader_waitForReceipt_def pollLoop_as_missing)
  show "wr_polls (waitForReceipt provider opts) \<le> nat (Retries_in_force opts)"
    using pollLoop_polls_le [of provider
        "fill_defaults (case opts of None \<Rightarrow> default_opts | Some given \<Rightarrow> given)" 0 0 "[]"]
    by (simp add: waitForReceipt_def polls_left_waitForReceipt)
  show "wr_polls (Uploader_waitForReceipt provider opts) \<le> method_polls opts"
    using pollLoop_polls_le [of provider
        "case opts of None \<Rightarrow> default_opts | Some given \<Rightarrow> given" 0 0 "[]"]
    by (simp add: Uploader_waitForReceipt_def polls_left_method)
  show "method_polls None = 10" by (simp add: method_polls_def)
  show "method_delay None = Some 5000" by (simp add: method_delay_def)
next
  assume failed: "\<forall>k. \<exists>r. provider k = PollReturns r \<and> \<not> receipt_ok r"
  have w: "waitForReceipt provider opts =
     \<lparr>wr_result = Inr None, wr_polls = nat (Retries_in_force opts),
      wr_delays = replicate (nat (Retries_in_force opts)) (Some (Interval_in_force opts * 1000)),
      wr_opts = fill_defaults (case opts of None \<Rightarrow> default_opts | Some given \<Rightarrow> given)\<rparr>"
    using pollLoop_all_failed [OF failed,
        of "fill_defaults (case opts of None \<Rightarrow> default_opts | Some given \<Rightarrow> given)" 0 0 "[]"]
    by (simp add: waitForReceipt_def polls_left_waitForReceipt fill_defaults_Interval)
  show "wr_result (waitForReceipt provider opts) = Inr None" by (simp add: w)
  show "wr_polls (waitForReceipt provider opts) = nat (Retries_in_force opts)"
    by (simp add: w)
  show "wr_delays (waitForReceipt provider opts)
           = replicate (nat (Retries_in_force opts)) (Some (Interval_in_force opts * 1000))"
    by (simp add: w)
  show "fst (submitOnce (Mined provider) opts)
           = Inl (JsError ''Get transaction receipt timeout'' DataUndefined)"
    by (simp add: submitOnce_def Let_def w)
  show "isTimeoutError (JsError ''Get transaction receipt timeout'' DataUndefined)"
    by (rule isTimeoutError_receipt_timeout)
  show "Uploader_waitForReceipt provider opts =
           \<lparr>wr_result = Inr None, wr_polls = method_polls opts,
            wr_delays = replicate (method_polls opts) (method_delay opts),
            wr_opts = (case opts of None \<Rightarrow> default_opts | Some given \<Rightarrow> given)\<rparr>"
    using pollLoop_all_failed [OF failed,
        of "case opts of None \<Rightarrow> default_opts | Some given \<Rightarrow> given" 0 0 "[]"]
    by (simp add: Uploader_waitForReceipt_def polls_left_method delay_method)
qed

theorem waitForReceipt_reverted_is_missing_witness:
  "waitForReceipt reverted None =
     \<lparr>wr_result = Inr None, wr_polls = 10, wr_delays = replicate 10 (Some 5000),
      wr_opts = default_opts\<rparr>
   \<and> waitForReceipt reverted None = waitForReceipt (\<lambda>k. PollReturns None) None
   \<and> fst (submitOnce (Mined reverted) None)
       = Inl (JsError ''Get transaction receipt timeout'' DataUndefined)
   \<and> Uploader_waitForReceipt reverted None =
     \<lparr>wr_result = Inr None, wr_polls = 10, wr_delays = replicate 10 (Some 5000),
      wr_opts = default_opts\<rparr>
   \<and> Uploader_waitForReceipt reverted None
       = Uploader_waitForReceipt (\<lambda>k. PollReturns None) None
   \<and> Uploader_waitForReceipt reverted capped =
     \<lparr>wr_result = Inr None, wr_polls = 0, wr_delays = [],
      wr_opts = \<lparr>Retries = None, Interval = None, MaxGasPrice = Some 125,
                 TooManyDataRetries = None\<rparr>\<rparr>"
proof -
  have h: "\<forall>k. \<exists>r. reverted k = PollReturns r \<and> \<not> receipt_ok r"
    by (simp add: reverted_def receipt_ok_def)
  have m: "(\<lambda>k. as_missing (reverted k)) = (\<lambda>k. PollReturns None)"
    by (simp add: reverted_def as_missing_def receipt_ok_def)
  have u: "wr_opts (waitForReceipt reverted None) = default_opts"
    by (simp add: waitForReceipt_def pollLoop_opts fill_defaults_def default_opts_def)
  have a: "waitForReceipt reverted None =
     \<lparr>wr_result = Inr None, wr_polls = 10, wr_delays = replicate 10 (Some 5000),
      wr_opts = default_opts\<rparr>"
    using waitForReceipt_reverted_is_missing [of reverted None] h u
    by (cases "waitForReceipt reverted None")
       (simp add: Retries_in_force_def Interval_in_force_def)
  have b: "Uploader_waitForReceipt reverted None =
     \<lparr>wr_result = Inr None, wr_polls = 10, wr_delays = replicate 10 (Some 5000),
      wr_opts = default_opts\<rparr>"
    using waitForReceipt_reverted_is_missing [of reverted None] h by simp
  have c: "Uploader_waitForReceipt reverted capped =
     \<lparr>wr_result = Inr None, wr_polls = 0, wr_delays = [],
      wr_opts = \<lparr>Retries = None, Interval = None, MaxGasPrice = Some 125,
                 TooManyDataRetries = None\<rparr>\<rparr>"
    using waitForReceipt_reverted_is_missing [of reverted capped] h
    by (simp add: method_polls_def capped_def)
  note t = waitForReceipt_reverted_is_missing [of reverted None]
  from t have d: "waitForReceipt reverted None = waitForReceipt (\<lambda>k. PollReturns None) None"
    by (simp only: m)
  from t have e: "Uploader_waitForReceipt reverted None
       = Uploader_waitForReceipt (\<lambda>k. PollReturns None) None"
    by (simp only: m)
  from t h have f: "fst (submitOnce (Mined reverted) None)
       = Inl (JsError ''Get transaction receipt timeout'' DataUndefined)"
    by blast
  from a d f b e c show ?thesis by blast
qed

section \<open>Gas price escalation\<close>

lemma fill_defaults_idem: "fill_defaults (fill_defaults opts) = fill_defaults opts"
  by (auto simp: fill_defaults_def Let_def)

lemma filled_idem: "filled (filled ro) = filled ro"
  by (cases ro) (simp_all add: filled_def fill_defaults_idem)

lemma waitForReceipt_filled: "waitForReceipt provider (filled ro) = waitForReceipt provider ro"
  by (cases ro) (simp_all add: waitForReceipt_def filled_def fill_defaults_idem)

lemma submitOnce_filled_fst: "fst (submitOnce x (filled ro)) = fst (submitOnce x ro)"
  by (cases x)
     (auto simp: submitOnce_def Let_def waitForReceipt_filled split: sum.splits option.splits)

lemma submitOnce_snd: "snd (submitOnce x ro) = ro \<or> snd (submitOnce x ro) = filled ro"
proof (cases x)
  case (Mined provider)
  have "map_option (\<lambda>given. wr_opts (waitForReceipt provider ro)) ro = filled ro"
    by (cases ro) (simp_all add: filled_def waitForReceipt_def pollLoop_opts)
  with Mined show ?thesis
    by (auto simp: submitOnce_def Let_def split: sum.splits option.splits)
qed (simp_all add: submitOnce_def)

lemma submitOnce_fst_inv:
  "ro' = ro \<or> ro' = filled ro \<Longrightarrow> fst (submitOnce x ro') = fst (submitOnce x ro)"
  by (auto simp: submitOnce_filled_fst)

lemma submitOnce_snd_inv:
  "ro' = ro \<or> ro' = filled ro \<Longrightarrow>
     snd (submitOnce x ro') = ro \<or> snd (submitOnce x ro') = filled ro"
  using submitOnce_snd [of x ro'] by (auto simp: filled_idem)

lemma prices_Suc: "prices p (Suc n) = p # prices (raise_price p) n"
  by (simp add: prices_def map_upt_Suc funpow_swap1 del: upt_Suc)

lemma gasLoop_stop:
  "\<not> p \<le> cap \<Longrightarrow>
     gasLoop ledger cap ro k p err sent = Some \<lparr>tx_receipt = None, tx_err = err, tx_sent = sent\<rparr>"
  by (subst gasLoop.simps) simp

lemma gasLoop_step:
  assumes "p \<le> cap"
  shows "gasLoop ledger cap ro k p err sent =
     (case fst (submitOnce (ledger k) ro) of
        Inr receipt \<Rightarrow>
          Some \<lparr>tx_receipt = Some receipt, tx_err = None, tx_sent = sent @ [p]\<rparr>
      | Inl e \<Rightarrow>
          if isTimeoutError e then
            gasLoop ledger cap (snd (submitOnce (ledger k) ro)) (k + 1) (raise_price p) (Some e)
              (sent @ [p])
          else Some \<lparr>tx_receipt = None, tx_err = Some e, tx_sent = sent @ [p]\<rparr>)"
  using assms
  by (subst gasLoop.simps) (simp add: raise_price_def split: prod.splits sum.splits)

lemma gasLoop_run:
  assumes "ro' = ro \<or> ro' = filled ro"
    and "\<forall>i<n. \<exists>e. fst (submitOnce (ledger (k + i)) ro) = Inl e \<and> isTimeoutError e"
    and "\<forall>i\<le>n. (raise_price ^^ i) p \<le> cap"
    and "case fst (submitOnce (ledger (k + n)) ro) of
           Inr receipt \<Rightarrow> True
         | Inl e \<Rightarrow> isTimeoutError e \<longrightarrow> cap < (raise_price ^^ Suc n) p"
  shows "gasLoop ledger cap ro' k p err sent =
     Some \<lparr>tx_receipt = (case fst (submitOnce (ledger (k + n)) ro) of
                           Inr receipt \<Rightarrow> Some receipt | Inl e \<Rightarrow> None),
           tx_err = (case fst (submitOnce (ledger (k + n)) ro) of
                           Inr receipt \<Rightarrow> None | Inl e \<Rightarrow> Some e),
           tx_sent = sent @ prices p (Suc n)\<rparr>"
  using assms
proof (induction n arbitrary: ro' k p err sent)
  case 0
  have p: "p \<le> cap" using "0.prems"(3) by simp
  have f: "fst (submitOnce (ledger k) ro') = fst (submitOnce (ledger k) ro)"
    using "0.prems"(1) by (rule submitOnce_fst_inv)
  show ?case
  proof (cases "fst (submitOnce (ledger k) ro)")
    case (Inr receipt)
    then show ?thesis by (simp add: gasLoop_step [OF p] f prices_def)
  next
    case (Inl e)
    show ?thesis
    proof (cases "isTimeoutError e")
      case False
      with Inl show ?thesis by (simp add: gasLoop_step [OF p] f prices_def)
    next
      case True
      with Inl "0.prems"(4) have "\<not> raise_price p \<le> cap" by simp
      with Inl True show ?thesis
        by (simp add: gasLoop_step [OF p] f gasLoop_stop prices_def)
    qed
  qed
next
  case (Suc n)
  have p: "p \<le> cap" using Suc.prems(3) by (metis funpow_0 le0)
  have f: "fst (submitOnce (ledger k) ro') = fst (submitOnce (ledger k) ro)"
    using Suc.prems(1) by (rule submitOnce_fst_inv)
  from Suc.prems(2) obtain e where e: "fst (submitOnce (ledger k) ro) = Inl e" "isTimeoutError e"
    by (metis add.right_neutral zero_less_Suc)
  let ?ro = "snd (submitOnce (ledger k) ro')"
  have ro: "?ro = ro \<or> ?ro = filled ro"
    using Suc.prems(1) by (rule submitOnce_snd_inv)
  have t: "\<forall>i<n. \<exists>e. fst (submitOnce (ledger (k + 1 + i)) ro) = Inl e \<and> isTimeoutError e"
  proof (intro allI impI)
    fix i assume "i < n"
    then have "Suc i < Suc n" by simp
    with Suc.prems(2) show "\<exists>e. fst (submitOnce (ledger (k + 1 + i)) ro) = Inl e \<and> isTimeoutError e"
      by (metis add_Suc_right add_Suc_shift Suc_eq_plus1)
  qed
  have c: "\<forall>i\<le>n. (raise_price ^^ i) (raise_price p) \<le> cap"
  proof (intro allI impI)
    fix i assume "i \<le> n"
    then have "Suc i \<le> Suc n" by simp
    with Suc.prems(3) have "(raise_price ^^ Suc i) p \<le> cap" by blast
    then show "(raise_price ^^ i) (raise_price p) \<le> cap" by (simp add: funpow_swap1)
  qed
  have kn: "k + 1 + n = k + Suc n" by simp
  have l: "case fst (submitOnce (ledger (k + 1 + n)) ro) of
           Inr receipt \<Rightarrow> True
         | Inl e \<Rightarrow> isTimeoutError e \<longrightarrow> cap < (raise_price ^^ Suc n) (raise_price p)"
    using Suc.prems(4) by (simp only: kn funpow_swap1 [symmetric] funpow.simps o_apply)
  have "gasLoop ledger cap ro' k p err sent =
        gasLoop ledger cap ?ro (k + 1) (raise_price p) (Some e) (sent @ [p])"
    using e by (simp add: gasLoop_step [OF p] f)
  also have "\<dots> = Some \<lparr>tx_receipt = (case fst (submitOnce (ledger (k + 1 + n)) ro) of
                           Inr receipt \<Rightarrow> Some receipt | Inl e \<Rightarrow> None),
           tx_err = (case fst (submitOnce (ledger (k + 1 + n)) ro) of
                           Inr receipt \<Rightarrow> None | Inl e \<Rightarrow> Some e),
           tx_sent = (sent @ [p]) @ prices (raise_price p) (Suc n)\<rparr>"
    by (rule Suc.IH [OF ro t c l])
  finally show ?case by (simp only: kn prices_Suc [of p "Suc n"] append_assoc append_Cons append_Nil)
qed

lemma raise_price_nonneg: "0 \<le> p \<Longrightarrow> raise_price p = 11 * p div 10"
  by (cases "p = 0") (simp_all add: raise_price_def bigint_div_def sgn_if)

lemma submitTransaction_sent:
  "map_option tx_sent (submitTransaction ledger g suggested retryOpts) =
     (if 0 < g then map_option tx_sent (txWithGasAdjustment ledger g retryOpts)
      else case suggested of
             None \<Rightarrow> Some []
           | Some s \<Rightarrow> map_option tx_sent (txWithGasAdjustment ledger s retryOpts))"
  by (auto simp: submitTransaction_def Let_def split: option.splits)

text \<open>
  Claim C2, as the code has it. Let the cap be \<^verbatim>\<open>retryOpts.MaxGasPrice\<close> where the caller
  supplied a positive one, and the starting gas price itself otherwise. If the starting
  price is within the cap, \<^verbatim>\<open>txWithGasAdjustment\<close> submits first at the starting price
  (\<^verbatim>\<open>submitTransaction\<close> passes the uploader's gas price when it is positive and the
  network's suggested price otherwise); after every timeout error the price becomes
  \<open>11 * price / 10\<close> (integer division) and the submission is repeated while the new
  price is within the cap, so that without a supplied maximum a timeout is not retried
  once the raised price exceeds the starting price. The run ends with the receipt of the
  first submission that succeeds, with the first error that is not a timeout (at once, no
  further submission), or with the last timeout error when the raised price exceeds the
  cap.
\<close>

theorem txWithGasAdjustment_escalation:
  assumes "\<forall>i<n. \<exists>e. fst (submitOnce (ledger i) retryOpts) = Inl e \<and> isTimeoutError e"
    and "\<forall>i\<le>n. (raise_price ^^ i) gasPrice \<le> maxGasPrice_of gasPrice retryOpts"
  shows "(\<forall>receipt. fst (submitOnce (ledger n) retryOpts) = Inr receipt \<longrightarrow>
            txWithGasAdjustment ledger gasPrice retryOpts =
              Some \<lparr>tx_receipt = Some receipt, tx_err = None,
                    tx_sent = prices gasPrice (Suc n)\<rparr>)
       \<and> (\<forall>e. fst (submitOnce (ledger n) retryOpts) = Inl e \<and> \<not> isTimeoutError e \<longrightarrow>
            txWithGasAdjustment ledger gasPrice retryOpts =
              Some \<lparr>tx_receipt = None, tx_err = Some e, tx_sent = prices gasPrice (Suc n)\<rparr>)
       \<and> (\<forall>e. fst (submitOnce (ledger n) retryOpts) = Inl e \<and> isTimeoutError e
              \<and> maxGasPrice_of gasPrice retryOpts < (raise_price ^^ Suc n) gasPrice \<longrightarrow>
            txWithGasAdjustment ledger gasPrice retryOpts =
              Some \<lparr>tx_receipt = None, tx_err = Some e, tx_sent = prices gasPrice (Suc n)\<rparr>)
       \<and> (0 \<le> gasPrice \<longrightarrow> raise_price gasPrice = 11 * gasPrice div 10)
       \<and> map_option tx_sent (submitTransaction ledger g suggested retryOpts) =
            (if 0 < g then map_option tx_sent (txWithGasAdjustment ledger g retryOpts)
             else case suggested of
                    None \<Rightarrow> Some []
                  | Some s \<Rightarrow> map_option tx_sent (txWithGasAdjustment ledger s retryOpts))"
proof -
  let ?cap = "maxGasPrice_of gasPrice retryOpts"
  let ?last = "fst (submitOnce (ledger n) retryOpts)"
  have t: "\<forall>i<n. \<exists>e. fst (submitOnce (ledger (0 + i)) retryOpts) = Inl e \<and> isTimeoutError e"
    using assms(1) by simp
  have run: "txWithGasAdjustment ledger gasPrice retryOpts =
     Some \<lparr>tx_receipt = (case ?last of Inr receipt \<Rightarrow> Some receipt | Inl e \<Rightarrow> None),
           tx_err = (case ?last of Inr receipt \<Rightarrow> None | Inl e \<Rightarrow> Some e),
           tx_sent = prices gasPrice (Suc n)\<rparr>"
    if "case ?last of Inr receipt \<Rightarrow> True
        | Inl e \<Rightarrow> isTimeoutError e \<longrightarrow> ?cap < (raise_price ^^ Suc n) gasPrice"
    using gasLoop_run [of retryOpts retryOpts n ledger 0 gasPrice ?cap None "[]", OF _ t assms(2)]
      that
    by (simp add: txWithGasAdjustment_def)
  have a: "\<forall>receipt. ?last = Inr receipt \<longrightarrow>
            txWithGasAdjustment ledger gasPrice retryOpts =
              Some \<lparr>tx_receipt = Some receipt, tx_err = None,
                    tx_sent = prices gasPrice (Suc n)\<rparr>"
    using run by (auto split: sum.splits)
  have b: "\<forall>e. ?last = Inl e \<and> \<not> isTimeoutError e \<longrightarrow>
            txWithGasAdjustment ledger gasPrice retryOpts =
              Some \<lparr>tx_receipt = None, tx_err = Some e, tx_sent = prices gasPrice (Suc n)\<rparr>"
    using run by (auto split: sum.splits)
  have c: "\<forall>e. ?last = Inl e \<and> isTimeoutError e
              \<and> ?cap < (raise_price ^^ Suc n) gasPrice \<longrightarrow>
            txWithGasAdjustment ledger gasPrice retryOpts =
              Some \<lparr>tx_receipt = None, tx_err = Some e, tx_sent = prices gasPrice (Suc n)\<rparr>"
    using run by (auto split: sum.splits)
  have d: "0 \<le> gasPrice \<longrightarrow> raise_price gasPrice = 11 * gasPrice div 10"
    by (simp add: raise_price_nonneg)
  show ?thesis using a b c d submitTransaction_sent by blast
qed

lemma raise_100: "raise_price 100 = 110" "raise_price 110 = 121" "raise_price 121 = 133"
  by (simp_all add: raise_price_def bigint_div_def)

lemma prices_100: "prices 100 3 = [100, 110, 121]" "prices 100 (Suc 0) = [100]"
  by (simp_all add: prices_def raise_100 numeral_3_eq_3)

lemma timeout_send: "isTimeoutError (JsError ''Send transaction timeout'' DataUndefined)"
  by (simp add: isTimeoutError_def)

theorem txWithGasAdjustment_escalation_witness:
  "txWithGasAdjustment third_time_lucky 100 capped =
     Some \<lparr>tx_receipt = Some \<lparr>hash = ''0xabc'', status = Some 1\<rparr>, tx_err = None,
           tx_sent = [100, 110, 121]\<rparr>
   \<and> txWithGasAdjustment always_timeout 100 capped =
     Some \<lparr>tx_receipt = None,
           tx_err = Some (JsError ''Send transaction timeout'' DataUndefined),
           tx_sent = [100, 110, 121]\<rparr>
   \<and> txWithGasAdjustment rejecting 100 None =
     Some \<lparr>tx_receipt = None, tx_err = Some (JsError ''insufficient funds'' DataUndefined),
           tx_sent = [100]\<rparr>
   \<and> raise_price 100 = 110"
proof -
  have cap: "maxGasPrice_of 100 capped = 125" "maxGasPrice_of 100 None = 100"
    by (simp_all add: maxGasPrice_of_def capped_def)
  have caps: "\<forall>i\<le>2. (raise_price ^^ i) 100 \<le> maxGasPrice_of 100 capped"
  proof (intro allI impI)
    fix i :: nat assume "i \<le> 2"
    then consider "i = 0" | "i = 1" | "i = 2" by arith
    then show "(raise_price ^^ i) 100 \<le> maxGasPrice_of 100 capped"
      by cases (simp_all add: cap raise_100 numeral_2_eq_2)
  qed
  have over: "maxGasPrice_of 100 capped < (raise_price ^^ Suc 2) 100"
    by (simp add: cap raise_100 numeral_2_eq_2)
  have t1: "\<forall>i<2. \<exists>e. fst (submitOnce (third_time_lucky i) capped) = Inl e \<and> isTimeoutError e"
    by (simp add: third_time_lucky_def submitOnce_def timeout_send)
  have t2: "\<forall>i<2. \<exists>e. fst (submitOnce (always_timeout i) capped) = Inl e \<and> isTimeoutError e"
    by (simp add: always_timeout_def submitOnce_def timeout_send)
  have l1: "fst (submitOnce (third_time_lucky 2) capped)
              = Inr \<lparr>hash = ''0xabc'', status = Some 1\<rparr>"
    by (simp add: third_time_lucky_def submitOnce_def waitForReceipt_def capped_def
          fill_defaults_def pollLoop.simps lt_opt_def receipt_ok_def Let_def)
  have l2: "fst (submitOnce (always_timeout 2) capped)
              = Inl (JsError ''Send transaction timeout'' DataUndefined)"
    by (simp add: always_timeout_def submitOnce_def)
  have t3: "\<forall>i<0. \<exists>e. fst (submitOnce (rejecting i) None) = Inl e \<and> isTimeoutError e"
    by simp
  have c3: "\<forall>i\<le>0. (raise_price ^^ i) 100 \<le> maxGasPrice_of 100 None"
    by (simp add: cap)
  have l3: "fst (submitOnce (rejecting 0) None) = Inl (JsError ''insufficient funds'' DataUndefined)"
    by (simp add: rejecting_def submitOnce_def)
  have n3: "\<not> isTimeoutError (JsError ''insufficient funds'' DataUndefined)"
    by (simp add: isTimeoutError_def)
  have p: "(0::int) \<le> 100" by simp
  show ?thesis
    using txWithGasAdjustment_escalation [OF t1 caps] l1
      txWithGasAdjustment_escalation [OF t2 caps] l2 over timeout_send
      txWithGasAdjustment_escalation [OF t3 c3] l3 n3 p
    by (simp add: prices_100)
qed

text \<open>
  Claim C2 as stated fails where the caller supplies no maximum gas price: the first
  submission, at 100, times out, nothing caps the price, and yet no second submission at
  110 is made.
\<close>

theorem txWithGasAdjustment_no_retry_without_max:
  "isTimeoutError (JsError ''Send transaction timeout'' DataUndefined)
   \<and> maxGasPrice_of 100 None = 100
   \<and> txWithGasAdjustment always_timeout 100 None =
       Some \<lparr>tx_receipt = None,
             tx_err = Some (JsError ''Send transaction timeout'' DataUndefined),
             tx_sent = [100]\<rparr>"
  by (simp add: timeout_send txWithGasAdjustment_def maxGasPrice_of_def gasLoop_step
        gasLoop_stop always_timeout_def submitOnce_def raise_100)

section \<open>Segments and upload tasks\<close>


lemma small_iter:
  "iterateWithOffsetAndBatch small_file off batch pad =
     \<lparr>next_ok = True, next_err = None, current = [1, 2, 3, 4, 5, 6, 7, 8]\<rparr>"
  by (simp add: small_file_def)


lemma str_includes_prefix: "prefix sub s \<Longrightarrow> str_includes s sub"
  by (cases s) simp_all

lemma str_includes_append: "str_includes (xs @ sub @ ys) sub"
proof (induction xs)
  case Nil
  show ?case by (simp add: str_includes_prefix)
next
  case (Cons x xs)
  then show ?case by simp
qed

lemma null_ack_retryable:
  "isRetryableError (caught node (UploadReturns None))
   \<and> \<not> isAlreadyUploadedError (caught node (UploadReturns None))"
  using str_includes_append [of "''Node '' @ url node @ '' ''"
          "''returned null for upload segments''" "[]"]
  by (simp add: caught_def isRetryableError_def isAlreadyUploadedError_def data_includes_def)

lemma retryable_failure_caught:
  assumes "retryable_failure response"
  shows "(\<forall>res. response \<noteq> UploadReturns (Some res))
       \<and> isRetryableError (caught node response)
       \<and> \<not> isAlreadyUploadedError (caught node response)"
proof (cases response)
  case (UploadThrows e)
  with assms show ?thesis by (simp add: retryable_failure_def caught_def)
next
  case (UploadReturns r)
  with assms have "r = None" by (cases r) (simp_all add: retryable_failure_def)
  with UploadReturns null_ack_retryable [of node] show ?thesis by simp
qed

lemma uploadLoop_retry:
  assumes "attempt < maxRetries - 1" and "retryable_failure (uploadSegmentsByTxSeq node uploads)"
  shows "uploadLoop node retryOpts maxRetries attempt lastError uploads sleeps =
         uploadLoop node retryOpts maxRetries (attempt + 1)
           (Some (caught node (uploadSegmentsByTxSeq node uploads))) (uploads + 1)
           (sleeps @ [interval_of retryOpts * 1000 * (attempt + 1)])"
proof -
  have lt: "attempt < maxRetries" using assms(1) by simp
  from retryable_failure_caught [OF assms(2), of node]
  show ?thesis
    using lt assms(1)
    by (subst uploadLoop.simps)
       (auto simp: Let_def split: uploadResponse.splits option.splits)
qed

lemma uploadLoop_success:
  assumes "attempt < maxRetries" and "uploadSegmentsByTxSeq node uploads = UploadReturns (Some res)"
  shows "uploadLoop node retryOpts maxRetries attempt lastError uploads sleeps =
         \<lparr>ut_result = Returned res, ut_uploads = uploads + 1, ut_sleeps = sleeps\<rparr>"
  using assms by (subst uploadLoop.simps) simp

lemma uploadLoop_already_uploaded:
  assumes "attempt < maxRetries" and "uploadSegmentsByTxSeq node uploads = UploadThrows e"
    and "isAlreadyUploadedError e"
  shows "uploadLoop node retryOpts maxRetries attempt lastError uploads sleeps =
         \<lparr>ut_result = Returned 0, ut_uploads = uploads + 1, ut_sleeps = sleeps\<rparr>"
  using assms by (subst uploadLoop.simps) (simp add: caught_def)

lemma uploadLoop_not_entered:
  assumes "\<not> attempt < maxRetries"
  shows "uploadLoop node retryOpts maxRetries attempt None uploads sleeps =
         \<lparr>ut_result = ReturnedError (JsError (''Upload failed after '' @ int_to_string maxRetries
                                 @ '' attempts to node '' @ url node) DataUndefined),
          ut_uploads = uploads, ut_sleeps = sleeps\<rparr>"
  using assms by (subst uploadLoop.simps) simp

text \<open>
  Claim C3. When the segments of the task have been read, the retry limit is the default 3,
  the first two calls of \<open>uploadSegmentsByTxSeq\<close> fail with a retryable error (an error
  that the handler classifies as retryable, or a \<^verbatim>\<open>null\<close> acknowledgement) and the
  third succeeds, \<open>uploadTask\<close> makes exactly 3 calls, sleeps \<open>Interval * 1\<close> and then
  \<open>Interval * 2\<close> seconds before the retries (3 seconds being the default interval), and
  returns the acknowledgement of the third call.
\<close>

theorem uploadTask_retries_then_succeeds:
  assumes "readSegments c encodeBase64 file tree task 0 (segIndex task) [] = Inr segments"
    and "clientIndex task < length nodes"
    and "node = nodes ! clientIndex task"
    and "maxRetries_of retryOpts = 3"
    and "retryable_failure (uploadSegmentsByTxSeq node 0)"
    and "retryable_failure (uploadSegmentsByTxSeq node 1)"
    and "uploadSegmentsByTxSeq node 2 = UploadReturns (Some res)"
  shows "uploadTask c encodeBase64 nodes file tree task retryOpts =
           \<lparr>ut_result = Returned res, ut_uploads = 3,
            ut_sleeps = [interval_of retryOpts * 1000 * 1, interval_of retryOpts * 1000 * 2]\<rparr>
       \<and> interval_of None = 3"
proof -
  have "uploadTask c encodeBase64 nodes file tree task retryOpts =
          uploadLoop node retryOpts 3 0 None 0 []"
    using assms(1-4) by (simp add: uploadTask_def)
  also have "\<dots> = uploadLoop node retryOpts 3 1
                     (Some (caught node (uploadSegmentsByTxSeq node 0))) 1
                     [interval_of retryOpts * 1000 * 1]"
    using uploadLoop_retry [of 0 3 node 0 retryOpts None "[]"] assms(5) by simp
  also have "\<dots> = uploadLoop node retryOpts 3 2
                     (Some (caught node (uploadSegmentsByTxSeq node 1))) 2
                     [interval_of retryOpts * 1000 * 1, interval_of retryOpts * 1000 * 2]"
    using uploadLoop_retry [of 1 3 node 1 retryOpts _ "[interval_of retryOpts * 1000 * 1]"]
      assms(6) by (simp add: numeral_2_eq_2)
  also have "\<dots> = \<lparr>ut_result = Returned res, ut_uploads = 3,
            ut_sleeps = [interval_of retryOpts * 1000 * 1, interval_of retryOpts * 1000 * 2]\<rparr>"
    using uploadLoop_success [of 2 3 node 2 res retryOpts] assms(7)
    by (simp add: numeral_3_eq_3 numeral_2_eq_2)
  finally show ?thesis by (simp add: interval_of_def)
qed

lemma read_first_task:
  "readSegments small_constants hex_of small_file small_tree first_task 0 (segIndex first_task) []
     = Inr [\<lparr>seg_root = ''0xroot'', seg_data = ''12345678'', seg_index = 0, seg_proof = 0,
            seg_fileSize = 12\<rparr>]"
  by (simp add: readSegments.simps getSegment_def Let_def first_task_def small_constants_def
        small_iter small_tree_def hex_of_def small_file_def)

theorem uploadTask_retries_then_succeeds_witness:
  "retryable_failure (UploadThrows (JsError ''too many data writing'' DataUndefined))
   \<and> retryable_failure (UploadReturns None)
   \<and> uploadTask small_constants hex_of [busy_node] small_file small_tree first_task None =
       \<lparr>ut_result = Returned 4, ut_uploads = 3, ut_sleeps = [3000, 6000]\<rparr>"
proof -
  have r0: "retryable_failure (UploadThrows (JsError ''too many data writing'' DataUndefined))"
    by (simp add: retryable_failure_def isRetryableError_def isAlreadyUploadedError_def
          data_includes_def)
  have r1: "retryable_failure (UploadReturns None)" by (simp add: retryable_failure_def)
  have n: "clientIndex first_task < length [busy_node]" by (simp add: first_task_def)
  have nd: "busy_node = [busy_node] ! clientIndex first_task" by (simp add: first_task_def)
  have m: "maxRetries_of None = 3" by (simp add: maxRetries_of_def)
  have u0: "retryable_failure (uploadSegmentsByTxSeq busy_node 0)"
    using r0 by (simp add: busy_node_def)
  have u1: "retryable_failure (uploadSegmentsByTxSeq busy_node 1)"
    using r1 by (simp add: busy_node_def)
  have u2: "uploadSegmentsByTxSeq busy_node 2 = UploadReturns (Some 4)"
    by (simp add: busy_node_def)
  show ?thesis
    using uploadTask_retries_then_succeeds [OF read_first_task n nd m u0 u1 u2] r0 r1
    by (simp add: interval_of_def)
qed

text \<open>
  Claim C4, as the code has it. When the segments of the task have been read and the retry
  limit (\<^verbatim>\<open>TooManyDataRetries\<close>, 3 by default) is at least 1, an upload that fails with
  an error classified as already uploaded makes \<open>uploadTask\<close> return success (0) after
  exactly one call of \<open>uploadSegmentsByTxSeq\<close>, without any pause.
\<close>

theorem uploadTask_already_uploaded:
  assumes "readSegments c encodeBase64 file tree task 0 (segIndex task) [] = Inr segments"
    and "clientIndex task < length nodes"
    and "node = nodes ! clientIndex task"
    and "1 \<le> maxRetries_of retryOpts"
    and "uploadSegmentsByTxSeq node 0 = UploadThrows e"
    and "isAlreadyUploadedError e"
  shows "uploadTask c encodeBase64 nodes file tree task retryOpts =
           \<lparr>ut_result = Returned 0, ut_uploads = 1, ut_sleeps = []\<rparr>"
proof -
  have "0 < maxRetries_of retryOpts" using assms(4) by simp
  from uploadLoop_already_uploaded [OF this assms(5,6), of retryOpts None "[]"]
  show ?thesis using assms(1-3) by (simp add: uploadTask_def)
qed

lemma finalized_error:
  "isAlreadyUploadedError
     (JsError ''Invalid params'' (DataString ''segment has already uploaded and finalized''))"
  by (simp add: isAlreadyUploadedError_def data_includes_def)

theorem uploadTask_already_uploaded_witness:
  "uploadTask small_constants hex_of [finalized_node] small_file small_tree first_task None =
     \<lparr>ut_result = Returned 0, ut_uploads = 1, ut_sleeps = []\<rparr>"
proof -
  have n: "clientIndex first_task < length [finalized_node]" by (simp add: first_task_def)
  have nd: "finalized_node = [finalized_node] ! clientIndex first_task"
    by (simp add: first_task_def)
  have m: "1 \<le> maxRetries_of None" by (simp add: maxRetries_of_def)
  have u: "uploadSegmentsByTxSeq finalized_node 0 =
      UploadThrows (JsError ''Invalid params''
        (DataString ''segment has already uploaded and finalized''))"
    by (simp add: finalized_node_def)
  show ?thesis
    by (rule uploadTask_already_uploaded [OF read_first_task n nd m u finalized_error])
qed

text \<open>
  Claim C4 as stated fails for a retry limit of 0: the loop is not entered, the node that
  would answer "already uploaded and finalized" is never called, and the task returns
  an error.
\<close>

theorem uploadTask_zero_retries_no_upload:
  "isAlreadyUploadedError
     (JsError ''Invalid params'' (DataString ''segment has already uploaded and finalized''))
   \<and> uploadTask small_constants hex_of [finalized_node] small_file small_tree first_task
       no_retries =
     \<lparr>ut_result = ReturnedError
        (JsError ''Upload failed after 0 attempts to node http://node0'' DataUndefined),
      ut_uploads = 0, ut_sleeps = []\<rparr>"
proof -
  have m: "maxRetries_of no_retries = 0" by (simp add: maxRetries_of_def no_retries_def)
  have s: "int_to_string 0 = ''0''" by (simp add: int_to_string_def nat_to_string.simps)
  have "uploadTask small_constants hex_of [finalized_node] small_file small_tree first_task
       no_retries = uploadLoop finalized_node no_retries 0 0 None 0 []"
    using read_first_task by (simp add: uploadTask_def m first_task_def)
  also have "\<dots> = \<lparr>ut_result = ReturnedError
        (JsError ''Upload failed after 0 attempts to node http://node0'' DataUndefined),
      ut_uploads = 0, ut_sleeps = []\<rparr>"
    by (simp add: uploadLoop_not_entered s finalized_node_def)
  finally show ?thesis using finalized_error by simp
qed

section \<open>The task plan\<close>

lemma taskLoop_client:
  assumes "taskLoop client tsize shardConfig txs s e segIdx tasks = Some out"
  shows "\<forall>t\<in>set out. t \<in> set tasks \<or> clientIndex t = client"
proof (rule taskLoop.raw_induct
    [where P = "\<lambda>client tsize shardConfig txs s e segIdx tasks out.
                  \<forall>t\<in>set out. t \<in> set tasks \<or> clientIndex t = client"])
  show "taskLoop client tsize shardConfig txs s e segIdx tasks = Some out" by fact
next
  fix loop :: "nat \<Rightarrow> int \<Rightarrow> ShardConfig \<Rightarrow> int \<Rightarrow> int \<Rightarrow> int \<Rightarrow> int \<Rightarrow> UploadTask list
                 \<Rightarrow> UploadTask list option"
    and client tsize shardConfig txs s e segIdx tasks out
  assume IH: "\<And>client tsize shardConfig txs s e segIdx tasks out.
                loop client tsize shardConfig txs s e segIdx tasks = Some out \<Longrightarrow>
                \<forall>t\<in>set out. t \<in> set tasks \<or> clientIndex t = client"
    and body: "(if segIdx \<le> e then
                  loop client tsize shardConfig txs s e (segIdx + numShard shardConfig * tsize)
                    (tasks @ [\<lparr>clientIndex = client, taskSize = tsize, segIndex = segIdx - s,
                               task_numShard = numShard shardConfig, txSeq = txs\<rparr>])
                else Some tasks) = Some out"
  show "\<forall>t\<in>set out. t \<in> set tasks \<or> clientIndex t = client"
  proof (cases "segIdx \<le> e")
    case True
    with body have "loop client tsize shardConfig txs s e
            (segIdx + numShard shardConfig * tsize)
            (tasks @ [\<lparr>clientIndex = client, taskSize = tsize, segIndex = segIdx - s,
                       task_numShard = numShard shardConfig, txSeq = txs\<rparr>]) = Some out"
      by simp
    from IH [OF this] show ?thesis by auto
  next
    case False
    with body show ?thesis by simp
  qed
qed

lemma taskLoop_returns:
  assumes "0 < numShard shardConfig * tsize"
  shows "\<exists>out. taskLoop client tsize shardConfig txs s e segIdx tasks = Some out"
proof (induction "nat (e + 1 - segIdx)" arbitrary: segIdx tasks rule: less_induct)
  case less
  show ?case
  proof (cases "segIdx \<le> e")
    case False
    then show ?thesis by (subst taskLoop.simps) simp
  next
    case True
    then have "nat (e + 1 - (segIdx + numShard shardConfig * tsize)) < nat (e + 1 - segIdx)"
      using assms by linarith
    from less [OF this] True show ?thesis by (subst taskLoop.simps) simp
  qed
qed

lemma nodeLoop_skips_finalized:
  assumes "k < length nodes"
    and "getFileInfo (nodes ! k) = InfoReturns cInfo" and "already_finalized cInfo"
    and "nodeLoop nodes shardConfigs opts txs s e client uploadTasks = Some (Inr out)"
    and "\<forall>ts\<in>set uploadTasks. \<forall>t\<in>set ts. clientIndex t \<noteq> k"
  shows "\<forall>ts\<in>set out. \<forall>t\<in>set ts. clientIndex t \<noteq> k"
  using assms
proof (induction nodes shardConfigs opts txs s e client uploadTasks rule: nodeLoop.induct)
  case (1 nodes shardConfigs opts txs s e client uploadTasks)
  note k = "1.prems"(1) and fin = "1.prems"(2,3)
    and run = "1.prems"(4) and acc = "1.prems"(5)
  show ?case
  proof (cases "client < length shardConfigs")
    case False
    with run have "out = uploadTasks" by (subst (asm) nodeLoop.simps) simp
    with acc show ?thesis by simp
  next
    case inside: True
    show ?thesis
    proof (cases "client < length nodes")
      case False
      with inside run show ?thesis by (subst (asm) nodeLoop.simps) simp
    next
      case node: True
      show ?thesis
      proof (cases "getFileInfo (nodes ! client)")
        case (InfoThrows err)
        with inside node run show ?thesis by (subst (asm) nodeLoop.simps) simp
      next
        case (InfoReturns info)
        show ?thesis
        proof (cases "already_finalized info")
          case True
          with inside node InfoReturns run
          have "nodeLoop nodes shardConfigs opts txs s e (client + 1) uploadTasks
                  = Some (Inr out)"
            by (subst (asm) nodeLoop.simps) simp
          from "1.IH"(1) [OF inside node InfoReturns True k fin this acc] show ?thesis .
        next
          case False
          with fin InfoReturns have ne: "client \<noteq> k" by auto
          let ?loop = "taskLoop client (opts_taskSize opts) (shardConfigs ! client) txs s e
                         (nextSgmentIndex_int (shardConfigs ! client) s) []"
          from inside node InfoReturns False run obtain tasks where
            tasks: "?loop = Some tasks" and
            rest: "nodeLoop nodes shardConfigs opts txs s e (client + 1)
                     (if tasks \<noteq> [] then uploadTasks @ [tasks] else uploadTasks)
                     = Some (Inr out)"
            by (subst (asm) nodeLoop.simps) (auto split: option.splits)
          from taskLoop_client [OF tasks] ne have "\<forall>t\<in>set tasks. clientIndex t \<noteq> k"
            by auto
          with acc have "\<forall>ts\<in>set (if tasks \<noteq> [] then uploadTasks @ [tasks] else uploadTasks).
                           \<forall>t\<in>set ts. clientIndex t \<noteq> k"
            by auto
          from "1.IH"(2) [OF inside node InfoReturns False tasks k fin rest this]
          show ?thesis .
        qed
      qed
    qed
  qed
qed

lemma roundOf_subset: "set (roundOf j xss) \<subseteq> \<Union> (set ` set xss)"
  by (induction xss) auto

lemma interleave_subset: "set (interleave xss) \<subseteq> \<Union> (set ` set xss)"
proof
  fix x assume "x \<in> set (interleave xss)"
  then obtain j where "x \<in> set (roundOf j (sort_key length xss))"
    by (auto simp: interleave_def split: list.splits simp del: roundOf.simps)
  with roundOf_subset [of j "sort_key length xss"] show "x \<in> \<Union> (set ` set xss)"
    by auto
qed

lemma nodeLoop_returns:
  assumes "\<forall>sc\<in>set shardConfigs. 0 < numShard sc * opts_taskSize opts"
  shows "\<exists>r. nodeLoop nodes shardConfigs opts txs s e client uploadTasks = Some r"
  using assms
proof (induction nodes shardConfigs opts txs s e client uploadTasks rule: nodeLoop.induct)
  case (1 nodes shardConfigs opts txs s e client uploadTasks)
  note pos = "1.prems"
  show ?case
  proof (cases "client < length shardConfigs \<and> client < length nodes")
    case False
    then show ?thesis by (subst nodeLoop.simps) auto
  next
    case True
    then have inside: "client < length shardConfigs" and node: "client < length nodes"
      by simp_all
    show ?thesis
    proof (cases "getFileInfo (nodes ! client)")
      case (InfoThrows err)
      with inside node show ?thesis by (subst nodeLoop.simps) simp
    next
      case (InfoReturns info)
      show ?thesis
      proof (cases "already_finalized info")
        case True
        from "1.IH"(1) [OF inside node InfoReturns True pos] inside node InfoReturns True
        show ?thesis by (subst nodeLoop.simps) simp
      next
        case False
        from pos inside have "0 < numShard (shardConfigs ! client) * opts_taskSize opts"
          by simp
        from taskLoop_returns [OF this] obtain tasks where
          tasks: "taskLoop client (opts_taskSize opts) (shardConfigs ! client) txs s e
                    (nextSgmentIndex_int (shardConfigs ! client) s) [] = Some tasks"
          by blast
        from "1.IH"(2) [OF inside node InfoReturns False tasks pos] inside node InfoReturns
          False tasks
        show ?thesis by (subst nodeLoop.simps) simp
      qed
    qed
  qed
qed

text \<open>
  Claim C5. A node whose file-info lookup at the root hash returns a record with
  \<open>finalized = true\<close> gets no task: no task of the flat list that \<open>splitTasks\<close> returns
  has that node's client index. And \<open>splitTasks\<close> does return whenever every
  \<open>numShard * opts.taskSize\<close> is positive.
\<close>

theorem splitTasks_skips_finalized_node:
  assumes "k < length nodes"
    and "getFileInfo (nodes ! k) = InfoReturns (Some cInfo)"
    and "finalized cInfo"
  shows "(\<forall>tasks. splitTasks c checkReplica nodes shardConfigsResult info opts
                     = Some (SplitTasks tasks) \<longrightarrow>
            (\<forall>t\<in>set tasks. clientIndex t \<noteq> k))
       \<and> ((\<forall>sc\<in>set (case shardConfigsResult of None \<Rightarrow> [] | Some scs \<Rightarrow> scs).
              0 < numShard sc * opts_taskSize opts) \<longrightarrow>
            (\<exists>r. splitTasks c checkReplica nodes shardConfigsResult info opts = Some r))"
proof (intro conjI allI impI)
  fix tasks
  assume run: "splitTasks c checkReplica nodes shardConfigsResult info opts
                 = Some (SplitTasks tasks)"
  have fin: "already_finalized (Some cInfo)" using assms(3) by (simp add: already_finalized_def)
  show "\<forall>t\<in>set tasks. clientIndex t \<noteq> k"
  proof (cases "tasks = []")
    case True
    then show ?thesis by simp
  next
    case False
    obtain s e where se: "SegmentRange_int c (startEntryIndex (tx info)) (tx_size (tx info)) = (s, e)"
      by (cases "SegmentRange_int c (startEntryIndex (tx info)) (tx_size (tx info))")
    from run False obtain shardConfigs uploadTasks where
      loop: "nodeLoop nodes shardConfigs opts (seq (tx info)) s e 0 [] = Some (Inr uploadTasks)"
      and flat: "tasks = interleave uploadTasks"
      by (auto simp: splitTasks_def se split: option.splits if_splits sum.splits)
    from nodeLoop_skips_finalized [OF assms(1,2) fin loop]
    have "\<forall>ts\<in>set uploadTasks. \<forall>t\<in>set ts. clientIndex t \<noteq> k" by simp
    with interleave_subset [of uploadTasks] flat show ?thesis by blast
  qed
next
  assume pos: "\<forall>sc\<in>set (case shardConfigsResult of None \<Rightarrow> [] | Some scs \<Rightarrow> scs).
              0 < numShard sc * opts_taskSize opts"
  obtain s e where se: "SegmentRange_int c (startEntryIndex (tx info)) (tx_size (tx info)) = (s, e)"
    by (cases "SegmentRange_int c (startEntryIndex (tx info)) (tx_size (tx info))")
  show "\<exists>r. splitTasks c checkReplica nodes shardConfigsResult info opts = Some r"
  proof (cases shardConfigsResult)
    case None
    then show ?thesis by (simp add: splitTasks_def)
  next
    case (Some shardConfigs)
    with pos have "\<forall>sc\<in>set shardConfigs. 0 < numShard sc * opts_taskSize opts" by simp
    from nodeLoop_returns [OF this, of nodes "seq (tx info)" s e 0 "[]"]
    obtain r where "nodeLoop nodes shardConfigs opts (seq (tx info)) s e 0 [] = Some r"
      by blast
    with Some show ?thesis
      by (cases r) (simp_all add: splitTasks_def se)
  qed
qed

theorem splitTasks_skips_finalized_node_witness:
  "splitTasks std_constants any_replica [done_node, fresh_node] (Some unsharded) three_segments
     one_segment_tasks
     = Some (SplitTasks [task_for 1 1 0, task_for 1 1 1, task_for 1 1 2])
   \<and> map clientIndex [task_for 1 1 0, task_for 1 1 1, task_for 1 1 2] = [1, 1, 1]"
proof -
  have k: "0 < length [done_node, fresh_node]" by simp
  have g: "getFileInfo ([done_node, fresh_node] ! 0) =
      InfoReturns (Some \<lparr>tx = \<lparr>seq = 7, startEntryIndex = 0, tx_size = 786432\<rparr>,
                         finalized = True\<rparr>)"
    by (simp add: done_node_def)
  have f: "finalized \<lparr>tx = \<lparr>seq = 7, startEntryIndex = 0, tx_size = 786432\<rparr>, finalized = True\<rparr>"
    by simp
  have run: "splitTasks std_constants any_replica [done_node, fresh_node] (Some unsharded)
      three_segments one_segment_tasks
     = Some (SplitTasks [task_for 1 1 0, task_for 1 1 1, task_for 1 1 2])"
    by code_simp
  have pos: "\<forall>sc\<in>set (case Some unsharded of None \<Rightarrow> [] | Some scs \<Rightarrow> scs).
              0 < numShard sc * opts_taskSize one_segment_tasks"
    by (simp add: unsharded_def one_segment_tasks_def)
  from splitTasks_skips_finalized_node [OF k g f, of std_constants any_replica "Some unsharded"
      three_segments one_segment_tasks] run pos
  have "\<forall>t\<in>set [task_for 1 1 0, task_for 1 1 1, task_for 1 1 2]. clientIndex t \<noteq> 0"
    by blast
  then have "map clientIndex [task_for 1 1 0, task_for 1 1 1, task_for 1 1 2] = [1, 1, 1]"
    by (simp add: task_for_def)
  with run show ?thesis by simp
qed

text \<open>
  Claim C1 asks that the flat list holds every task of every per-node list exactly once.
  The code sorts the per-node lists by increasing length and runs its rounds up to the
  length of the first, hence shortest, list. With three segments on two nodes of one shard
  each, node 0 has the tasks of the segments 0 and 2, node 1 has the task of segment 1,
  and the flat list holds the tasks of the segments 1 and 0 only: the task of segment 2 is
  dropped.
\<close>

theorem splitTasks_drops_tasks:
  "SegmentRange std_constants 0 786432 = (num 0, num 2)
   \<and> SegmentRange_int std_constants 0 786432 = (0, 2)
   \<and> nextSgmentIndex \<lparr>shardId = 0, numShard = 2\<rparr> 0 = num 0
   \<and> nextSgmentIndex \<lparr>shardId = 1, numShard = 2\<rparr> 0 = num 1
   \<and> nodeLoop [fresh_node, fresh_node] two_shards one_segment_tasks 7 0 2 0 []
       = Some (Inr [[task_for 0 2 0, task_for 0 2 2], [task_for 1 2 1]])
   \<and> splitTasks std_constants any_replica [fresh_node, fresh_node] (Some two_shards)
         three_segments one_segment_tasks
       = Some (SplitTasks [task_for 1 2 1, task_for 0 2 0])
   \<and> task_for 0 2 2 \<notin> set [task_for 1 2 1, task_for 0 2 0]"
  by code_simp

end
